theory Spec2Isabelle
  imports Main "HOL-Library.Sublist"
begin

section \<open>Values shared by the server and the batch runner\<close>

text \<open>
  Python renders \<open>len(paths)\<close>, \<open>response.status_code\<close> and the loop index \<open>i\<close> inside
  f-strings; \<open>str_of_nat\<close> is that decimal rendering for non-negative integers.
\<close>

definition digit_char :: "nat \<Rightarrow> char" where
  "digit_char d = ''0123456789'' ! d"

function str_of_nat :: "nat \<Rightarrow> string" where
  "str_of_nat n =
     (if n < 10 then [digit_char n] else str_of_nat (n div 10) @ [digit_char (n mod 10)])"
  by pat_completeness auto
termination
  by (relation "measure id") auto

declare str_of_nat.simps [simp del]

text \<open>
  Every \<open>raise Exception(f"...")\<close> of the two programs, as a value. \<open>LibraryError\<close> stands for
  an exception raised inside a library call (file access, HTTP client, JSON or base64
  decoding, subprocess); it carries \<open>str(e)\<close>. \<open>str_of_exn\<close> is \<open>str(e)\<close>.
\<close>

datatype exn =
    KeyNotSet
  | TooManyRefs nat nat
  | RefNotFound string
  | ApiError nat string
  | NoImageData
  | UnknownTool "string option"
  | LibraryError string

fun str_of_exn :: "exn \<Rightarrow> string" where
  "str_of_exn KeyNotSet = ''GEMINI_API_KEY not set''"
| "str_of_exn (TooManyRefs n m) =
     ''Too many reference images ('' @ str_of_nat n @ ''). Maximum is '' @ str_of_nat m @ ''.''"
| "str_of_exn (RefNotFound p) = ''Reference image not found: '' @ p"
| "str_of_exn (ApiError status body) = ''API error: '' @ str_of_nat status @ '' - '' @ body"
| "str_of_exn NoImageData = ''No image data in API response''"
| "str_of_exn (UnknownTool None) = ''Unknown tool: None''"
| "str_of_exn (UnknownTool (Some name)) = ''Unknown tool: '' @ name"
| "str_of_exn (LibraryError m) = m"

text \<open>The two module-level tables: \<open>MODELS\<close> and \<open>size_map\<close> (identical in both files).\<close>

definition models :: "string \<rightharpoonup> string" where
  "models = [''pro'' \<mapsto> ''gemini-3-pro-image-preview'', ''fast'' \<mapsto> ''gemini-2.5-flash-image'']"

definition size_map :: "string \<rightharpoonup> string" where
  "size_map = [''small'' \<mapsto> ''1K'', ''medium'' \<mapsto> ''2K'', ''large'' \<mapsto> ''2K'', ''xlarge'' \<mapsto> ''4K'']"

text \<open>\<open>size_map.get(image_size, "2K")\<close>.\<close>

definition gemini_size_of :: "string \<Rightarrow> string" where
  "gemini_size_of image_size = (case size_map image_size of Some r \<Rightarrow> r | None \<Rightarrow> ''2K'')"

text \<open>
  \<open>quality = quality if quality in MODELS else "pro"; model = MODELS[quality]\<close>
  (the batch runner writes the same with \<open>if quality not in models\<close>): the pair of the
  effective tier and its model identifier.
\<close>

definition resolve_quality :: "string \<Rightarrow> string \<times> string" where
  "resolve_quality quality =
     (case models quality of
        Some m \<Rightarrow> (quality, m)
      | None \<Rightarrow> (''pro'', ''gemini-3-pro-image-preview''))"

text \<open>\<open>get_mime_type\<close>'s table, applied to the lower-cased extension.\<close>

definition mime_map :: "string \<rightharpoonup> string" where
  "mime_map = [''.png'' \<mapsto> ''image/png'', ''.jpg'' \<mapsto> ''image/jpeg'', ''.jpeg'' \<mapsto> ''image/jpeg'',
               ''.webp'' \<mapsto> ''image/webp'', ''.gif'' \<mapsto> ''image/gif'']"

subsection \<open>Requests and responses of the external API\<close>

datatype part = InlineData string string | TextPart "string option"

record request =
  req_url :: string
  req_parts :: "part list"
  req_aspect_ratio :: string
  req_image_size :: "string option"

datatype resp_part = RespText string | RespInline string

text \<open>
  A response: its status code, its body text, and what \<open>response.json()\<close> followed by
  \<open>data['candidates'][0]['content']['parts']\<close> yields: the list of parts, or the
  message of the exception that the decoding or the indexing raises.
\<close>

record response =
  status_code :: nat
  resp_text :: string
  resp_parts :: "string + resp_part list"

subsection \<open>The world the programs act on\<close>

datatype outcome =
    Success string string string string nat
  | Failure string string

datatype content = Bytes string | ResultsJson "outcome list"

text \<open>A queue entry as the batch runner reads it: every key is read with \<open>.get\<close>.\<close>

record prompt_data =
  pd_prompt :: "string option"
  pd_filename :: "string option"
  pd_aspect_ratio :: "string option"
  pd_image_size :: "string option"
  pd_quality :: "string option"
  pd_reference_images :: "string list option"
  pd_reference_image :: "string option"

text \<open>
  The state: the file system (path to content), the trace of HTTP POSTs issued so far,
  the live Queue Store, the number of inter-item pauses taken, and the dispatcher's two
  output channels.
\<close>

datatype rpc_id = IdNull | IdInt int | IdStr string

record gen_result =
  gr_image_path :: string
  gr_resolution :: string
  gr_aspect_ratio :: string
  gr_quality :: string
  gr_model :: string
  gr_reference_images_used :: nat
  gr_message :: string

text \<open>
  What an operation returns to the dispatcher: the record of \<open>generate_image\<close>, the JSON
  value a sibling script printed, or the dictionary \<open>run_batch\<close> builds (success, output,
  error).
\<close>

datatype tool_result =
    Generated gen_result
  | JsonValue string
  | RunStatus bool "string option" "string option"

datatype response_body =
    InitializeResult
  | ToolsListResult "string list"
  | ToolContent tool_result
  | ErrorBody int string

record world =
  files :: "string \<rightharpoonup> content"
  calls :: "request list"
  queue :: "prompt_data list"
  slept :: nat
  sent :: "(rpc_id \<times> response_body) list"
  errlog :: "string list"

text \<open>
  The arguments of an operation invocation; each is read with \<open>arguments.get\<close>. A
  reference list may arrive as a single string, which the server accepts.
\<close>

datatype ref_arg = RefStr string | RefList "string list"

record arguments =
  arg_prompt :: "string option"
  arg_filename :: "string option"
  arg_aspect_ratio :: "string option"
  arg_image_size :: "string option"
  arg_description :: "string option"
  arg_reference_image :: "string option"
  arg_reference_images :: "ref_arg option"
  arg_quality :: "string option"
  arg_identifier :: "string option"

text \<open>
  What the programs read from their surroundings: the process environment and the
  configuration, and the library functions whose results the code only passes on.
  An \<open>Inl\<close> or \<open>Some\<close> message is the \<open>str(e)\<close> of the exception the library call raises.
  \<open>http_post k r\<close> is the answer to request \<open>r\<close> issued as the POST number \<open>k\<close>;
  \<open>subprocess_json\<close> is \<open>subprocess.run\<close> followed by \<open>json.loads(result.stdout)\<close>,
  \<open>subprocess_run\<close> gives the return code, the output and the error output, and
  \<open>delegated_tool\<close> stands for the three operations outside the core (format conversion,
  listing converted images, media upload).
\<close>

record env =
  api_key :: "string option"
  max_ref_images :: nat
  images_dir :: string
  batch_manager_script :: string
  batch_generate_script :: string
  queue_file :: string
  batch_dir :: string
  expanduser :: "string \<Rightarrow> string"
  path_join :: "string \<Rightarrow> string \<Rightarrow> string"
  lower_ext :: "string \<Rightarrow> string"
  b64encode :: "content \<Rightarrow> string"
  b64decode :: "string \<Rightarrow> string + string"
  open_write_error :: "string \<Rightarrow> string option"
  makedirs_error :: "string \<Rightarrow> string option"
  http_post :: "nat \<Rightarrow> request \<Rightarrow> string + response"
  timestamp :: "nat \<Rightarrow> string"
  json_dumps_list :: "string list \<Rightarrow> string"
  subprocess_json :: "string list \<Rightarrow> world \<Rightarrow> (string + string) \<times> world"
  subprocess_run :: "string list \<Rightarrow> world \<Rightarrow> (string + (nat \<times> string \<times> string)) \<times> world"
  delegated_tool :: "string \<Rightarrow> arguments \<Rightarrow> world \<Rightarrow> (string + string) \<times> world"

text \<open>\<open>if not api_key\<close>: the variable is unset or empty.\<close>

definition key_missing :: "env \<Rightarrow> bool" where
  "key_missing e = (case api_key e of None \<Rightarrow> True | Some k \<Rightarrow> k = [])"

definition the_key :: "env \<Rightarrow> string" where
  "the_key e = (case api_key e of None \<Rightarrow> [] | Some k \<Rightarrow> k)"

definition get_mime_type :: "env \<Rightarrow> string \<Rightarrow> string" where
  "get_mime_type e file_path =
     (case mime_map (lower_ext e file_path) of Some m \<Rightarrow> m | None \<Rightarrow> ''image/png'')"

text \<open>
  \<open>encode_reference_images\<close> of the batch runner and \<open>_encode_reference_images\<close> of the
  server are the same loop: expand the path, fail on the first one that does not exist,
  read and encode the others in order. The file system holds regular files, and reading
  one that exists succeeds and does not change the world.
\<close>

fun encode_reference_images :: "env \<Rightarrow> world \<Rightarrow> string list \<Rightarrow> exn + part list" where
  "encode_reference_images e w [] = Inr []"
| "encode_reference_images e w (p # ps) =
     (let ref_path = expanduser e p in
      case files w ref_path of
        None \<Rightarrow> Inl (RefNotFound ref_path)
      | Some c \<Rightarrow>
          (case encode_reference_images e w ps of
             Inl x \<Rightarrow> Inl x
           | Inr rest \<Rightarrow> Inr (InlineData (get_mime_type e ref_path) (b64encode e c) # rest)))"

text \<open>
  The payload and the URL, as both programs build them: the reference parts first, the
  prompt last; \<open>imageSize\<close> only for the pro tier.
\<close>

definition api_url :: "string \<Rightarrow> string \<Rightarrow> string" where
  "api_url model key =
     ''https://generativelanguage.googleapis.com/v1beta/models/'' @ model @ '':generateContent?key='' @ key"

definition build_request ::
  "string \<Rightarrow> string \<Rightarrow> string \<Rightarrow> string \<Rightarrow> string \<Rightarrow> part list \<Rightarrow> string option \<Rightarrow> request" where
  "build_request key model quality aspect_ratio gemini_size ref_parts prompt =
     \<lparr> req_url = api_url model key,
       req_parts = ref_parts @ [TextPart prompt],
       req_aspect_ratio = aspect_ratio,
       req_image_size = (if quality = ''pro'' then Some gemini_size else None) \<rparr>"

text \<open>
  The scan of the response for the first part carrying \<open>inlineData\<close>; an empty payload
  is falsy, so \<open>if not image_data\<close> rejects it as well.
\<close>

fun first_inline :: "resp_part list \<Rightarrow> string option" where
  "first_inline [] = None"
| "first_inline (RespInline d # ps) = Some d"
| "first_inline (RespText t # ps) = first_inline ps"

text \<open>
  \<open>requests.post\<close>, the status check and the scan: one POST is appended to the trace,
  whatever the answer is; nothing in the code issues a second one.
\<close>

definition call_api :: "env \<Rightarrow> request \<Rightarrow> world \<Rightarrow> (exn + string) \<times> world" where
  "call_api e r w =
     (let w1 = w\<lparr>calls := calls w @ [r]\<rparr> in
      case http_post e (length (calls w)) r of
        Inl m \<Rightarrow> (Inl (LibraryError m), w1)
      | Inr resp \<Rightarrow>
          if status_code resp \<noteq> 200
          then (Inl (ApiError (status_code resp) (resp_text resp)), w1)
          else (case resp_parts resp of
                  Inl m \<Rightarrow> (Inl (LibraryError m), w1)
                | Inr ps \<Rightarrow>
                    (case first_inline ps of
                       None \<Rightarrow> (Inl NoImageData, w1)
                     | Some d \<Rightarrow> if d = [] then (Inl NoImageData, w1) else (Inr d, w1))))"

text \<open>
  \<open>with open(path, 'wb') as f: f.write(base64.b64decode(image_data))\<close>: the file is
  opened (and so emptied) before the payload is decoded.
\<close>

definition save_image :: "env \<Rightarrow> string \<Rightarrow> string \<Rightarrow> world \<Rightarrow> exn option \<times> world" where
  "save_image e path image_data w =
     (case open_write_error e path of
        Some m \<Rightarrow> (Some (LibraryError m), w)
      | None \<Rightarrow>
          (case b64decode e image_data of
             Inl m \<Rightarrow> (Some (LibraryError m), w\<lparr>files := (files w)(path \<mapsto> Bytes [])\<rparr>)
           | Inr bytes \<Rightarrow> (None, w\<lparr>files := (files w)(path \<mapsto> Bytes bytes)\<rparr>)))"

section \<open>The Queue Store\<close>

text \<open>
  Modelled from the spec: the batch manager script (\<open>CFG["batch_manager_script"]\<close>) that
  \<open>remove_from_queue\<close> runs is not among the sources. Section 4.5 of the specification:
  the identifier, if it parses as a non-negative integer within the current bounds,
  removes by position; otherwise it is a filename and the first entry with that filename
  is removed; no match is reported as a failure (a non-zero exit status, here \<open>None\<close>).
\<close>

definition is_digit :: "char \<Rightarrow> bool" where
  "is_digit c = (c \<in> set ''0123456789'')"

fun digit_val :: "char \<Rightarrow> nat" where
  "digit_val c = length (takeWhile (\<lambda>d. d \<noteq> c) ''0123456789'')"

definition parse_index :: "string \<Rightarrow> nat option" where
  "parse_index s =
     (if s \<noteq> [] \<and> list_all is_digit s
      then Some (foldl (\<lambda>acc c. 10 * acc + digit_val c) 0 s) else None)"

fun remove_first :: "string \<Rightarrow> prompt_data list \<Rightarrow> prompt_data list option" where
  "remove_first f [] = None"
| "remove_first f (x # xs) =
     (if pd_filename x = Some f then Some xs
      else map_option ((#) x) (remove_first f xs))"

definition remove_at :: "nat \<Rightarrow> 'a list \<Rightarrow> 'a list" where
  "remove_at k xs = take k xs @ drop (Suc k) xs"

definition queue_store_remove :: "string \<Rightarrow> prompt_data list \<Rightarrow> prompt_data list option" where
  "queue_store_remove ident q =
     (case parse_index ident of
        Some k \<Rightarrow> if k < length q then Some (remove_at k q) else remove_first ident q
      | None \<Rightarrow> remove_first ident q)"

section \<open>The batch runner\<close>

text \<open>
  \<open>remove_from_queue\<close>: run the manager's \<open>remove\<close>; a non-zero exit status only prints a
  warning. The subprocess is taken to start and to return.
\<close>

definition remove_from_queue :: "string \<Rightarrow> world \<Rightarrow> world" where
  "remove_from_queue filename w =
     (case queue_store_remove filename (queue w) of
        Some q \<Rightarrow> w\<lparr>queue := q\<rparr>
      | None \<Rightarrow> w)"

text \<open>The locals of one iteration, as lines 78 to 98 of the batch runner compute them.\<close>

definition queue_filename_of :: "nat \<Rightarrow> prompt_data \<Rightarrow> string" where
  "queue_filename_of i pd =
     (case pd_filename pd of Some f \<Rightarrow> f | None \<Rightarrow> ''image_'' @ str_of_nat i @ ''.png'')"

definition filename_of :: "nat \<Rightarrow> prompt_data \<Rightarrow> string" where
  "filename_of i pd =
     (let filename = queue_filename_of i pd in
      if suffix ''.png'' filename then filename else filename @ ''.png'')"

definition aspect_ratio_of :: "prompt_data \<Rightarrow> string" where
  "aspect_ratio_of pd = (case pd_aspect_ratio pd of Some a \<Rightarrow> a | None \<Rightarrow> ''1:1'')"

definition image_size_of :: "prompt_data \<Rightarrow> string" where
  "image_size_of pd = (case pd_image_size pd of Some s \<Rightarrow> s | None \<Rightarrow> ''large'')"

definition quality_of :: "prompt_data \<Rightarrow> string" where
  "quality_of pd = fst (resolve_quality (case pd_quality pd of Some q \<Rightarrow> q | None \<Rightarrow> ''pro''))"

definition model_of :: "prompt_data \<Rightarrow> string" where
  "model_of pd = snd (resolve_quality (case pd_quality pd of Some q \<Rightarrow> q | None \<Rightarrow> ''pro''))"

definition reference_images_of :: "prompt_data \<Rightarrow> string list" where
  "reference_images_of pd =
     (if quality_of pd = ''pro''
      then (let reference_images = (case pd_reference_images pd of Some l \<Rightarrow> l | None \<Rightarrow> []) in
            if reference_images = []
            then (case pd_reference_image pd of
                    None \<Rightarrow> []
                  | Some single \<Rightarrow> if single = [] then [] else [single])
            else reference_images)
      else [])"

definition batch_gemini_size :: "prompt_data \<Rightarrow> string" where
  "batch_gemini_size pd = gemini_size_of (image_size_of pd)"

definition batch_request :: "env \<Rightarrow> prompt_data \<Rightarrow> part list \<Rightarrow> string \<Rightarrow> request" where
  "batch_request e pd ref_parts prompt =
     build_request (the_key e) (model_of pd) (quality_of pd) (aspect_ratio_of pd)
       (batch_gemini_size pd) ref_parts (Some prompt)"

text \<open>
  The body of the \<open>try\<close> (lines 107 to 154): encode the references, POST, scan, write the
  image, build the success outcome, remove the queue's own filename from the queue.
\<close>

definition attempt ::
  "env \<Rightarrow> string \<Rightarrow> nat \<Rightarrow> prompt_data \<Rightarrow> string \<Rightarrow> world \<Rightarrow> (exn + outcome) \<times> world" where
  "attempt e output_dir i pd prompt w =
     (case encode_reference_images e w (reference_images_of pd) of
        Inl x \<Rightarrow> (Inl x, w)
      | Inr ref_parts \<Rightarrow>
          (case call_api e (batch_request e pd ref_parts prompt) w of
             (Inl x, w1) \<Rightarrow> (Inl x, w1)
           | (Inr image_data, w1) \<Rightarrow>
               (let output_path = path_join e output_dir (filename_of i pd) in
                case save_image e output_path image_data w1 of
                  (Some x, w2) \<Rightarrow> (Inl x, w2)
                | (None, w2) \<Rightarrow>
                    (Inr (Success (filename_of i pd) output_path (batch_gemini_size pd)
                            (aspect_ratio_of pd) (length (reference_images_of pd))),
                     remove_from_queue (queue_filename_of i pd) w2))))"

text \<open>
  One iteration. \<open>prompt[:80]\<close> in the progress line is outside the \<open>try\<close>: an entry
  without a prompt raises there and ends the run (\<open>Inl\<close>, with the message of the type
  error, whose first word stands between single quotes, the character \<open>0x27\<close>). Otherwise the \<open>except\<close>
  clause turns any exception of the body into an error outcome, the outcome is appended
  and, unless this was the last entry, the runner sleeps.
\<close>

definition handle_attempt :: "nat \<Rightarrow> prompt_data \<Rightarrow> exn + outcome \<Rightarrow> outcome" where
  "handle_attempt i pd r =
     (case r of Inr result \<Rightarrow> result | Inl x \<Rightarrow> Failure (filename_of i pd) (str_of_exn x))"

definition pause :: "nat \<Rightarrow> nat \<Rightarrow> world \<Rightarrow> world" where
  "pause i n w = (if i < n then w\<lparr>slept := Suc (slept w)\<rparr> else w)"

definition process_entry ::
  "env \<Rightarrow> string \<Rightarrow> nat \<Rightarrow> nat \<Rightarrow> prompt_data \<Rightarrow> outcome list \<times> world
     \<Rightarrow> string + outcome list \<times> world" where
  "process_entry e output_dir n i pd st =
     (case pd_prompt pd of
        None \<Rightarrow> Inl (CHR 0x27 # ''NoneType'' @ CHR 0x27 # '' object is not subscriptable'')
      | Some prompt \<Rightarrow>
          (case attempt e output_dir i pd prompt (snd st) of
             (r, w') \<Rightarrow> Inr (fst st @ [handle_attempt i pd r], pause i n w')))"

text \<open>The \<open>for i, prompt_data in enumerate(prompts, 1)\<close> loop, from index \<open>i\<close> on.\<close>

fun batch_loop ::
  "env \<Rightarrow> string \<Rightarrow> nat \<Rightarrow> nat \<Rightarrow> prompt_data list \<Rightarrow> outcome list \<times> world
     \<Rightarrow> string + outcome list \<times> world" where
  "batch_loop e output_dir n i [] st = Inr st"
| "batch_loop e output_dir n i (pd # rest) st =
     (case process_entry e output_dir n i pd st of
        Inl crash \<Rightarrow> Inl crash
      | Inr st' \<Rightarrow> batch_loop e output_dir n (Suc i) rest st')"

text \<open>
  \<open>generate_images_batch\<close>, given the \<open>prompts\<close> list loaded from the prompts file. It
  returns early, with nothing written, without a credential or without prompts. After
  the loop it writes \<open>batch_results.json\<close> and prints the totals: attempted, succeeded,
  failed.
\<close>

fun is_success :: "outcome \<Rightarrow> bool" where
  "is_success (Success f p r a k) = True"
| "is_success (Failure f m) = False"

record batch_report =
  br_total :: nat
  br_success :: nat
  br_failed :: nat

definition write_results :: "env \<Rightarrow> string \<Rightarrow> outcome list \<Rightarrow> world \<Rightarrow> string + world" where
  "write_results e output_dir results w =
     (let results_file = path_join e output_dir ''batch_results.json'' in
      case open_write_error e results_file of
        Some m \<Rightarrow> Inl m
      | None \<Rightarrow> Inr (w\<lparr>files := (files w)(results_file \<mapsto> ResultsJson results)\<rparr>))"

definition generate_images_batch ::
  "env \<Rightarrow> prompt_data list \<Rightarrow> string \<Rightarrow> world \<Rightarrow> string + batch_report option \<times> world" where
  "generate_images_batch e prompts output_dir w =
     (if key_missing e then Inr (None, w)
      else if prompts = [] then Inr (None, w)
      else case batch_loop e output_dir (length prompts) 1 prompts ([], w) of
             Inl crash \<Rightarrow> Inl crash
           | Inr (results, w') \<Rightarrow>
               (case write_results e output_dir results w' of
                  Inl crash \<Rightarrow> Inl crash
                | Inr w'' \<Rightarrow>
                    Inr (Some \<lparr> br_total = length prompts,
                                br_success = length (filter is_success results),
                                br_failed = length (filter (\<lambda>r. \<not> is_success r) results) \<rparr>,
                         w'')))"


section \<open>The server: immediate generation and enqueueing\<close>

text \<open>
  \<open>_normalize_reference_images\<close>: a non-empty list (or string) wins over the single path;
  more than \<open>MAX_REF_IMAGES\<close> paths is an error.
\<close>

definition single_path :: "string option \<Rightarrow> string list" where
  "single_path reference_image =
     (case reference_image of None \<Rightarrow> [] | Some p \<Rightarrow> if p = [] then [] else [p])"

definition collect_paths :: "ref_arg option \<Rightarrow> string option \<Rightarrow> string list" where
  "collect_paths reference_images reference_image =
     (case reference_images of
        None \<Rightarrow> single_path reference_image
      | Some (RefStr s) \<Rightarrow> if s = [] then single_path reference_image else [s]
      | Some (RefList l) \<Rightarrow> if l = [] then single_path reference_image else l)"

definition normalize_reference_images ::
  "env \<Rightarrow> ref_arg option \<Rightarrow> string option \<Rightarrow> exn + string list" where
  "normalize_reference_images e reference_images reference_image =
     (let paths = collect_paths reference_images reference_image in
      if length paths > max_ref_images e
      then Inl (TooManyRefs (length paths) (max_ref_images e))
      else Inr paths)"

text \<open>\<open>if quality == "fast" and image_size == "large": image_size = "small"\<close>.\<close>

definition remap_size :: "string \<Rightarrow> string \<Rightarrow> string" where
  "remap_size quality image_size =
     (if quality = ''fast'' \<and> image_size = ''large'' then ''small'' else image_size)"

text \<open>\<open>ref_paths\<close>: normalised for the pro tier, empty for any other.\<close>

definition tier_ref_paths ::
  "env \<Rightarrow> string \<Rightarrow> ref_arg option \<Rightarrow> string option \<Rightarrow> exn + string list" where
  "tier_ref_paths e quality reference_images reference_image =
     (if quality = ''pro'' then normalize_reference_images e reference_images reference_image
      else Inr [])"

definition server_request ::
  "env \<Rightarrow> string option \<Rightarrow> string \<Rightarrow> string \<Rightarrow> string \<Rightarrow> part list \<Rightarrow> request" where
  "server_request e prompt aspect_ratio image_size quality ref_parts =
     build_request (the_key e) (snd (resolve_quality quality)) (fst (resolve_quality quality))
       aspect_ratio (gemini_size_of (remap_size (fst (resolve_quality quality)) image_size))
       ref_parts prompt"

definition image_filename :: "env \<Rightarrow> world \<Rightarrow> string" where
  "image_filename e w = images_dir e @ ''/gemini_image_'' @ timestamp e (length (calls w)) @ ''.png''"

definition generate_image ::
  "env \<Rightarrow> string option \<Rightarrow> string \<Rightarrow> string \<Rightarrow> string option \<Rightarrow> ref_arg option \<Rightarrow> string
     \<Rightarrow> world \<Rightarrow> (exn + gen_result) \<times> world" where
  "generate_image e prompt aspect_ratio image_size reference_image reference_images quality w =
     (if key_missing e then (Inl KeyNotSet, w)
      else
        case tier_ref_paths e (fst (resolve_quality quality)) reference_images reference_image of
          Inl x \<Rightarrow> (Inl x, w)
        | Inr ref_paths \<Rightarrow>
            (case encode_reference_images e w ref_paths of
               Inl x \<Rightarrow> (Inl x, w)
             | Inr ref_parts \<Rightarrow>
                 (case call_api e (server_request e prompt aspect_ratio image_size quality ref_parts) w of
                    (Inl x, w1) \<Rightarrow> (Inl x, w1)
                  | (Inr image_data, w1) \<Rightarrow>
                      (case makedirs_error e (images_dir e) of
                         Some m \<Rightarrow> (Inl (LibraryError m), w1)
                       | None \<Rightarrow>
                           (case save_image e (image_filename e w1) image_data w1 of
                              (Some x, w2) \<Rightarrow> (Inl x, w2)
                            | (None, w2) \<Rightarrow>
                                (Inr \<lparr> gr_image_path = image_filename e w1,
                                       gr_resolution =
                                         gemini_size_of (remap_size (fst (resolve_quality quality)) image_size),
                                       gr_aspect_ratio = aspect_ratio,
                                       gr_quality = fst (resolve_quality quality),
                                       gr_model = snd (resolve_quality quality),
                                       gr_reference_images_used = length ref_paths,
                                       gr_message =
                                         ''Image generated successfully ('' @ fst (resolve_quality quality)
                                           @ '' mode): '' @ image_filename e w1 \<rparr>,
                                 w2))))))"

text \<open>
  \<open>add_to_batch\<close>: the command line handed to the batch manager. A prompt of \<open>None\<close> makes
  \<open>subprocess.run\<close> raise a type error.
\<close>

definition or_default :: "string \<Rightarrow> string \<Rightarrow> string" where
  "or_default s d = (if s = [] then d else s)"

definition add_command ::
  "env \<Rightarrow> string \<Rightarrow> string option \<Rightarrow> string \<Rightarrow> string \<Rightarrow> string list \<Rightarrow> string \<Rightarrow> string list" where
  "add_command e prompt filename aspect_ratio image_size ref_paths quality =
     [''python3'', batch_manager_script e, ''add'', prompt,
      (case filename of None \<Rightarrow> [] | Some f \<Rightarrow> f),
      or_default aspect_ratio ''16:9'',
      or_default image_size ''large'',
      (if ref_paths = [] then ''[]'' else json_dumps_list e ref_paths),
      quality]"

definition run_manager :: "env \<Rightarrow> string list \<Rightarrow> world \<Rightarrow> (exn + tool_result) \<times> world" where
  "run_manager e cmd w =
     (case subprocess_json e cmd w of
        (Inl m, w') \<Rightarrow> (Inl (LibraryError m), w')
      | (Inr j, w') \<Rightarrow> (Inr (JsonValue j), w'))"

definition add_to_batch ::
  "env \<Rightarrow> string option \<Rightarrow> string option \<Rightarrow> string \<Rightarrow> string \<Rightarrow> string \<Rightarrow> string option
     \<Rightarrow> ref_arg option \<Rightarrow> string \<Rightarrow> world \<Rightarrow> (exn + tool_result) \<times> world" where
  "add_to_batch e prompt filename aspect_ratio image_size description reference_image
       reference_images quality w =
     (case tier_ref_paths e (fst (resolve_quality quality)) reference_images reference_image of
        Inl x \<Rightarrow> (Inl x, w)
      | Inr ref_paths \<Rightarrow>
          (case prompt of
             None \<Rightarrow> (Inl (LibraryError ''expected str, bytes or os.PathLike object, not NoneType''), w)
           | Some p \<Rightarrow>
               run_manager e
                 (add_command e p filename aspect_ratio
                    (remap_size (fst (resolve_quality quality)) image_size) ref_paths
                    (fst (resolve_quality quality))) w))"

definition remove_from_batch :: "env \<Rightarrow> string option \<Rightarrow> world \<Rightarrow> (exn + tool_result) \<times> world" where
  "remove_from_batch e identifier w =
     run_manager e [''python3'', batch_manager_script e, ''remove'',
                    (case identifier of None \<Rightarrow> ''None'' | Some s \<Rightarrow> s)] w"

definition view_batch_queue :: "env \<Rightarrow> world \<Rightarrow> (exn + tool_result) \<times> world" where
  "view_batch_queue e w = run_manager e [''python3'', batch_manager_script e, ''view''] w"

definition run_batch :: "env \<Rightarrow> world \<Rightarrow> (exn + tool_result) \<times> world" where
  "run_batch e w =
     (if key_missing e then (Inr (RunStatus False None (Some ''GEMINI_API_KEY not set'')), w)
      else case subprocess_run e [''python3'', batch_generate_script e, queue_file e, batch_dir e] w of
             (Inl m, w') \<Rightarrow> (Inl (LibraryError m), w')
           | (Inr (rc, out, err), w') \<Rightarrow>
               (Inr (RunStatus (rc = 0) (Some out) (if rc \<noteq> 0 then Some err else None)), w'))"

definition delegated :: "env \<Rightarrow> string \<Rightarrow> arguments \<Rightarrow> world \<Rightarrow> (exn + tool_result) \<times> world" where
  "delegated e name args w =
     (case delegated_tool e name args w of
        (Inl m, w') \<Rightarrow> (Inl (LibraryError m), w')
      | (Inr j, w') \<Rightarrow> (Inr (JsonValue j), w'))"

section \<open>The dispatcher\<close>

definition get_or :: "'a option \<Rightarrow> 'a \<Rightarrow> 'a" where
  "get_or v d = (case v of None \<Rightarrow> d | Some x \<Rightarrow> x)"

text \<open>
  Writing to the two output channels is taken to succeed: \<open>send_message\<close> appends the
  message (its id and its result or error) to what was sent, and the \<open>except\<close> clause of
  \<open>main\<close> appends a line to the error log.
\<close>

definition send_message :: "rpc_id \<times> response_body \<Rightarrow> world \<Rightarrow> world" where
  "send_message m w = w\<lparr>sent := sent w @ [m]\<rparr>"

definition log_error :: "string \<Rightarrow> world \<Rightarrow> world" where
  "log_error m w = w\<lparr>errlog := errlog w @ [''Error: '' @ m]\<rparr>"

text \<open>The names of the operations that \<open>handle_tools_list\<close> announces, in its order.\<close>

definition catalog :: "string list" where
  "catalog = [''get_generated_webp_images'', ''generate_image'', ''add_to_batch'',
              ''remove_from_batch'', ''view_batch_queue'', ''run_batch'', ''convert_to_webp'',
              ''upload_to_wordpress'']"

text \<open>The \<open>if\<close>/\<open>elif\<close> chain of \<open>handle_tool_call\<close>, inside its \<open>try\<close>.\<close>

definition call_tool ::
  "env \<Rightarrow> string option \<Rightarrow> arguments \<Rightarrow> world \<Rightarrow> (exn + tool_result) \<times> world" where
  "call_tool e tool_name args w =
     (if tool_name = Some ''generate_image'' then
        (case generate_image e (arg_prompt args) (get_or (arg_aspect_ratio args) ''1:1'')
                (get_or (arg_image_size args) ''large'') (arg_reference_image args)
                (arg_reference_images args) (get_or (arg_quality args) ''pro'') w of
           (Inl x, w') \<Rightarrow> (Inl x, w')
         | (Inr r, w') \<Rightarrow> (Inr (Generated r), w'))
      else if tool_name = Some ''add_to_batch'' then
        add_to_batch e (arg_prompt args) (arg_filename args) (get_or (arg_aspect_ratio args) ''16:9'')
          (get_or (arg_image_size args) ''large'') (get_or (arg_description args) [])
          (arg_reference_image args) (arg_reference_images args) (get_or (arg_quality args) ''pro'') w
      else if tool_name = Some ''remove_from_batch'' then remove_from_batch e (arg_identifier args) w
      else if tool_name = Some ''view_batch_queue'' then view_batch_queue e w
      else if tool_name = Some ''run_batch'' then run_batch e w
      else if tool_name = Some ''convert_to_webp'' then delegated e ''convert_to_webp'' args w
      else if tool_name = Some ''get_generated_webp_images'' then
        delegated e ''get_generated_webp_images'' args w
      else if tool_name = Some ''upload_to_wordpress'' then delegated e ''upload_to_wordpress'' args w
      else (Inl (UnknownTool tool_name), w))"

definition handle_tool_call :: "env \<Rightarrow> rpc_id \<Rightarrow> string option \<Rightarrow> arguments \<Rightarrow> world \<Rightarrow> world" where
  "handle_tool_call e request_id tool_name args w =
     (case call_tool e tool_name args w of
        (Inr result, w') \<Rightarrow> send_message (request_id, ToolContent result) w'
      | (Inl x, w') \<Rightarrow> send_message (request_id, ErrorBody (- 32000) (str_of_exn x)) w')"

text \<open>
  A line of input, as \<open>read_message\<close> sees it: text that \<open>json.loads\<close> rejects (with the
  message of its exception), the JSON value \<open>null\<close>, another JSON value that is not an
  object (with the message of the attribute error that \<open>message.get\<close> raises), or an
  object. \<open>params\<close> may be absent, an object, or something \<open>params.get\<close> fails on.
\<close>

datatype params = ParamsAbsent | ParamsObject "string option" "arguments option" | ParamsOther string

record message =
  msg_method :: "string option"
  msg_id :: rpc_id
  msg_params :: params

datatype line = NotJson string | JsonNull | JsonOther string | JsonObject message

definition no_arguments :: arguments where
  "no_arguments =
     \<lparr> arg_prompt = None, arg_filename = None, arg_aspect_ratio = None, arg_image_size = None,
       arg_description = None, arg_reference_image = None, arg_reference_images = None,
       arg_quality = None, arg_identifier = None \<rparr>"

text \<open>The body of the loop for a message that is an object.\<close>

definition handle_message :: "env \<Rightarrow> message \<Rightarrow> world \<Rightarrow> world" where
  "handle_message e msg w =
     (if msg_method msg = Some ''initialize'' then send_message (msg_id msg, InitializeResult) w
      else if msg_method msg = Some ''tools/list'' then
        send_message (msg_id msg, ToolsListResult catalog) w
      else if msg_method msg = Some ''tools/call'' then
        (case msg_params msg of
           ParamsAbsent \<Rightarrow> handle_tool_call e (msg_id msg) None no_arguments w
         | ParamsObject name args \<Rightarrow>
             handle_tool_call e (msg_id msg) name (get_or args no_arguments) w
         | ParamsOther m \<Rightarrow> log_error m w)
      else if msg_method msg = Some ''notifications/initialized'' then w
      else w)"

text \<open>
  The \<open>while True\<close> loop of \<open>main\<close> over the lines still to come; the end of the list is
  the closed channel. \<open>read_message\<close> returns \<open>None\<close> at the end of input and also for a
  line holding \<open>null\<close>, and the loop breaks on \<open>None\<close>. The result is the final world and
  the lines left unread.
\<close>

fun main_loop :: "env \<Rightarrow> line list \<Rightarrow> world \<Rightarrow> world \<times> line list" where
  "main_loop e [] w = (w, [])"
| "main_loop e (l # ls) w =
     (case l of
        JsonNull \<Rightarrow> (w, ls)
      | NotJson m \<Rightarrow> main_loop e ls (log_error m w)
      | JsonOther m \<Rightarrow> main_loop e ls (log_error m w)
      | JsonObject msg \<Rightarrow> main_loop e ls (handle_message e msg w))"

text \<open>\<open>main\<close>: the banner on the error channel, then the loop.\<close>

definition main :: "env \<Rightarrow> line list \<Rightarrow> world \<Rightarrow> world \<times> line list" where
  "main e ls w =
     main_loop e ls
       (w\<lparr>errlog := errlog w @ [''Gemini Image MCP Server v3.1 - Pro/Fast Quality Tiers'']\<rparr>)"

section \<open>Which queue entries are still to be done\<close>

text \<open>The entries of a run whose outcome is not a success, in order.\<close>

fun pending :: "prompt_data list \<Rightarrow> outcome list \<Rightarrow> prompt_data list" where
  "pending (pd # pds) (Success f p r a k # rs) = pending pds rs"
| "pending (pd # pds) (Failure f m # rs) = pd # pending pds rs"
| "pending [] rs = []"
| "pending pds [] = []"

section \<open>A concrete environment\<close>

definition image_response :: "nat \<Rightarrow> response" where
  "image_response status =
     \<lparr> status_code = status, resp_text = ''body'',
       resp_parts = Inr [RespText ''here it is'', RespInline ''aGVsbG8=''] \<rparr>"

definition demo_env :: "nat \<Rightarrow> env" where
  "demo_env status =
     \<lparr> api_key = Some ''secret'', max_ref_images = 14, images_dir = ''/img'',
       batch_manager_script = ''/bin/batch_manager.py'',
       batch_generate_script = ''/bin/batch_generate.py'',
       queue_file = ''/img/batch_queue.json'', batch_dir = ''/img/batch'',
       expanduser = (\<lambda>p. p),
       path_join = (\<lambda>d f. d @ ''/'' @ f),
       lower_ext = (\<lambda>p. ''.png''),
       b64encode = (\<lambda>c. ''QUJD''),
       b64decode = (\<lambda>s. Inr ''hello''),
       open_write_error = (\<lambda>p. None),
       makedirs_error = (\<lambda>p. None),
       http_post = (\<lambda>k r. Inr (image_response status)),
       timestamp = (\<lambda>k. ''20260101_120000''),
       json_dumps_list = (\<lambda>l. ''[...]''),
       subprocess_json = (\<lambda>cmd w. (Inr ''{}'', w)),
       subprocess_run = (\<lambda>cmd w. (Inr (0, [], []), w)),
       delegated_tool = (\<lambda>name args w. (Inr ''{}'', w)) \<rparr>"

definition entry :: "string \<Rightarrow> string \<Rightarrow> string \<Rightarrow> string list \<Rightarrow> prompt_data" where
  "entry prompt filename quality refs =
     \<lparr> pd_prompt = Some prompt, pd_filename = Some filename, pd_aspect_ratio = Some ''1:1'',
       pd_image_size = Some ''large'', pd_quality = Some quality,
       pd_reference_images = Some refs, pd_reference_image = None \<rparr>"

definition demo_world :: "prompt_data list \<Rightarrow> world" where
  "demo_world q =
     \<lparr> files = Map.empty, calls = [], queue = q, slept = 0, sent = [], errlog = [] \<rparr>"

definition fifteen_paths :: "string list" where
  "fifteen_paths = replicate 15 ''/ref.png''"

definition cat_entry :: prompt_data where
  "cat_entry = entry ''a cat'' ''cat'' ''pro'' [''/missing.png'']"

definition dog_entry :: prompt_data where
  "dog_entry = entry ''a dog'' ''dog'' ''fast'' [''/ref.png'']"

definition ping_message :: message where
  "ping_message = \<lparr> msg_method = Some ''ping'', msg_id = IdInt 7, msg_params = ParamsAbsent \<rparr>"

definition list_message :: message where
  "list_message = \<lparr> msg_method = Some ''tools/list'', msg_id = IdInt 1, msg_params = ParamsAbsent \<rparr>"

definition bare_fast_entry :: prompt_data where
  "bare_fast_entry =
     \<lparr> pd_prompt = Some ''a dog'', pd_filename = Some ''dog.png'', pd_aspect_ratio = None,
       pd_image_size = None, pd_quality = Some ''fast'', pd_reference_images = None,
       pd_reference_image = None \<rparr>"

definition dup_failing :: prompt_data where
  "dup_failing = entry ''a cat'' ''pic.png'' ''pro'' [''/missing.png'']"

definition dup_passing :: prompt_data where
  "dup_passing = entry ''a dog'' ''pic.png'' ''fast'' []"

definition promptless_entry :: prompt_data where
  "promptless_entry =
     \<lparr> pd_prompt = None, pd_filename = Some ''nothing.png'', pd_aspect_ratio = None,
       pd_image_size = None, pd_quality = None, pd_reference_images = None,
       pd_reference_image = None \<rparr>"

text \<open>An environment whose base64 decoding depends on the payload it is given.\<close>

definition decoded :: "string \<Rightarrow> string + string" where
  "decoded s = Inr (''decoded '' @ s)"

definition payload_env :: env where
  "payload_env = (demo_env 200)\<lparr>b64decode := decoded\<rparr>"

section \<open>What an attempt does to the world\<close>

lemma call_api_world:
  "call_api e r w = (res, w1) \<Longrightarrow> w1 = w\<lparr>calls := calls w @ [r]\<rparr>"
  by (auto simp: call_api_def Let_def split: sum.splits option.splits if_splits)

lemma save_image_keeps:
  "save_image e p d w = (res, w2) \<Longrightarrow>
     queue w2 = queue w \<and> calls w2 = calls w \<and> slept w2 = slept w"
  by (auto simp: save_image_def split: sum.splits option.splits)

lemma attempt_failure_queue:
  "attempt e d i pd prompt w = (Inl x, w') \<Longrightarrow> queue w' = queue w"
  by (auto simp: attempt_def Let_def split: sum.splits option.splits prod.splits
      dest!: call_api_world save_image_keeps)

lemma pause_queue: "queue (pause i n w) = queue w"
  by (simp add: pause_def)

text \<open>The definitions that evaluating a concrete run unfolds.\<close>

lemmas run_defs =
  process_entry_def attempt_def handle_attempt_def pause_def reference_images_of_def quality_of_def
  model_of_def resolve_quality_def models_def call_api_def save_image_def remove_from_queue_def
  queue_store_remove_def parse_index_def is_digit_def filename_of_def queue_filename_of_def
  batch_gemini_size_def image_size_of_def aspect_ratio_of_def gemini_size_of_def size_map_def
  image_response_def batch_request_def build_request_def api_url_def the_key_def
  entry_def demo_env_def demo_world_def Let_def suffix_Cons

section \<open>The batch loop isolates failures\<close>

lemma process_entry_failure:
  assumes "pd_prompt pd = Some prompt"
    and "attempt e output_dir i pd prompt w = (Inl x, w')"
  shows "process_entry e output_dir n i pd (results, w) =
           Inr (results @ [Failure (filename_of i pd) (str_of_exn x)], pause i n w')"
  using assms by (simp add: process_entry_def handle_attempt_def)

lemma process_entry_total:
  "pd_prompt pd \<noteq> None \<Longrightarrow> \<exists>r w'. process_entry e d n i pd (rs, w) = Inr (rs @ [r], w')"
  by (auto simp: process_entry_def split: prod.splits)

lemma batch_loop_total:
  "\<forall>pd\<in>set pds. pd_prompt pd \<noteq> None \<Longrightarrow>
   \<exists>outs w'. batch_loop e d n i pds (rs, w) = Inr (rs @ outs, w') \<and> length outs = length pds"
proof (induction pds arbitrary: i rs w)
  case Nil
  then show ?case by simp
next
  case (Cons pd pds)
  from Cons.prems have "pd_prompt pd \<noteq> None" by simp
  then obtain r w1 where step: "process_entry e d n i pd (rs, w) = Inr (rs @ [r], w1)"
    using process_entry_total by blast
  from Cons.prems have "\<forall>p\<in>set pds. pd_prompt p \<noteq> None" by simp
  from Cons.IH [OF this, of "Suc i" "rs @ [r]" w1]
  obtain outs w' where "batch_loop e d n (Suc i) pds (rs @ [r], w1) = Inr ((rs @ [r]) @ outs, w')"
    and "length outs = length pds" by blast
  with step show ?case by (intro exI [of _ "r # outs"] exI [of _ w']) simp
qed

text \<open>
  Inside the \<open>try\<close>, every failure stays with its entry. Take an entry that has a prompt
  and whose attempt raises: the queue is the same after the iteration as before it, the
  outcome appended is the error outcome carrying \<open>str(e)\<close>, and the loop goes on with the
  next entry; when the remaining entries have prompts as well, the loop runs to its end
  with one outcome for each of them.
\<close>

lemma failure_inside_try_is_isolated:
  assumes prompts: "\<forall>p\<in>set (pd # rest). pd_prompt p \<noteq> None"
    and prompt: "pd_prompt pd = Some prompt"
    and fails: "attempt e output_dir i pd prompt w = (Inl x, w')"
  shows "queue (pause i n w') = queue w
       \<and> process_entry e output_dir n i pd (results, w) =
           Inr (results @ [Failure (filename_of i pd) (str_of_exn x)], pause i n w')
       \<and> batch_loop e output_dir n i (pd # rest) (results, w) =
           batch_loop e output_dir n (Suc i) rest
             (results @ [Failure (filename_of i pd) (str_of_exn x)], pause i n w')
       \<and> (\<exists>outs w''. batch_loop e output_dir n i (pd # rest) (results, w) =
             Inr (results @ Failure (filename_of i pd) (str_of_exn x) # outs, w'')
             \<and> length outs = length rest)"
proof -
  have q: "queue (pause i n w') = queue w"
    using attempt_failure_queue [OF fails] by (simp add: pause_queue)
  have step: "process_entry e output_dir n i pd (results, w) =
           Inr (results @ [Failure (filename_of i pd) (str_of_exn x)], pause i n w')"
    using process_entry_failure [OF prompt fails] .
  have cont: "batch_loop e output_dir n i (pd # rest) (results, w) =
           batch_loop e output_dir n (Suc i) rest
             (results @ [Failure (filename_of i pd) (str_of_exn x)], pause i n w')"
    by (simp add: step)
  from prompts have "\<forall>p\<in>set rest. pd_prompt p \<noteq> None" by simp
  from batch_loop_total [OF this]
  obtain outs w'' where "batch_loop e output_dir n (Suc i) rest
             (results @ [Failure (filename_of i pd) (str_of_exn x)], pause i n w') =
           Inr ((results @ [Failure (filename_of i pd) (str_of_exn x)]) @ outs, w'')"
    and "length outs = length rest" by blast
  with cont have "\<exists>outs w''. batch_loop e output_dir n i (pd # rest) (results, w) =
             Inr (results @ Failure (filename_of i pd) (str_of_exn x) # outs, w'')
             \<and> length outs = length rest" by auto
  with q step cont show ?thesis by blast
qed

lemma batch_loop_append:
  "batch_loop e d n i (xs @ ys) st =
     (case batch_loop e d n i xs st of
        Inl crash \<Rightarrow> Inl crash
      | Inr st' \<Rightarrow> batch_loop e d n (i + length xs) ys st')"
  by (induction xs arbitrary: i st) (auto split: sum.splits)

lemma process_entry_without_prompt:
  "pd_prompt pd = None \<Longrightarrow>
   process_entry e d n i pd st =
     Inl (CHR 0x27 # ''NoneType'' @ CHR 0x27 # '' object is not subscriptable'')"
  by (simp add: process_entry_def)

lemma batch_loop_stops_without_prompt:
  assumes "batch_loop e d n i before st = Inr st'"
    and "pd_prompt pd = None"
  shows "batch_loop e d n i (before @ pd # rest) st =
     Inl (CHR 0x27 # ''NoneType'' @ CHR 0x27 # '' object is not subscriptable'')"
  using assms by (simp add: batch_loop_append process_entry_without_prompt)

text \<open>
  Claim C1 holds for every failure inside the \<open>try\<close> (the lemma above). The progress line
  before the \<open>try\<close> slices the prompt, so an entry without a prompt raises outside it
  and ends the run: in a run of three entries whose second has no prompt, the first is
  generated, then the loop ends with the type error, the third entry is never
  attempted and no summary is written.
\<close>

theorem promptless_entry_ends_the_batch:
  "pd_prompt promptless_entry = None
   \<and> batch_loop (demo_env 200) ''/out'' 3 1 [dog_entry, promptless_entry, cat_entry]
         ([], demo_world [dog_entry, promptless_entry, cat_entry]) =
       Inl (CHR 0x27 # ''NoneType'' @ CHR 0x27 # '' object is not subscriptable'')
   \<and> generate_images_batch (demo_env 200) [dog_entry, promptless_entry, cat_entry] ''/out''
         (demo_world [dog_entry, promptless_entry, cat_entry]) =
       Inl (CHR 0x27 # ''NoneType'' @ CHR 0x27 # '' object is not subscriptable'')
   \<and> batch_loop (demo_env 200) ''/out'' 3 1 [dog_entry] ([], demo_world [dog_entry, promptless_entry, cat_entry]) =
       Inr ([Success ''dog.png'' ''/out/dog.png'' ''2K'' ''1:1'' 0],
            (demo_world [promptless_entry, cat_entry])\<lparr>files := [''/out/dog.png'' \<mapsto> Bytes ''hello''],
               calls := [batch_request (demo_env 200) dog_entry [] ''a dog''], slept := 1\<rparr>)"
  by (simp add: generate_images_batch_def key_missing_def run_defs promptless_entry_def
      cat_entry_def dog_entry_def)

section \<open>The fast tier drops the reference images\<close>

lemma resolve_fast: "resolve_quality ''fast'' = (''fast'', ''gemini-2.5-flash-image'')"
  by (simp add: resolve_quality_def models_def)

lemma resolve_pro: "resolve_quality ''pro'' = (''pro'', ''gemini-3-pro-image-preview'')"
  by (simp add: resolve_quality_def models_def)

lemma fast_reference_images: "pd_quality pd = Some ''fast'' \<Longrightarrow> reference_images_of pd = []"
  by (simp add: reference_images_of_def quality_of_def resolve_fast)

lemma generate_image_fast:
  "\<not> key_missing e \<Longrightarrow>
   generate_image e prompt a s ri ris ''fast'' w =
     (case call_api e (server_request e prompt a s ''fast'' []) w of
        (Inl x, w1) \<Rightarrow> (Inl x, w1)
      | (Inr image_data, w1) \<Rightarrow>
          (case makedirs_error e (images_dir e) of
             Some m \<Rightarrow> (Inl (LibraryError m), w1)
           | None \<Rightarrow>
               (case save_image e (image_filename e w1) image_data w1 of
                  (Some x, w2) \<Rightarrow> (Inl x, w2)
                | (None, w2) \<Rightarrow>
                    (Inr \<lparr> gr_image_path = image_filename e w1,
                           gr_resolution = gemini_size_of (remap_size ''fast'' s),
                           gr_aspect_ratio = a, gr_quality = ''fast'',
                           gr_model = ''gemini-2.5-flash-image'',
                           gr_reference_images_used = 0,
                           gr_message = ''Image generated successfully ('' @ ''fast''
                                           @ '' mode): '' @ image_filename e w1 \<rparr>,
                     w2))))"
  by (simp add: generate_image_def tier_ref_paths_def resolve_fast
      split: prod.splits sum.splits option.splits)

lemma generate_image_fast_calls:
  assumes "\<not> key_missing e"
  shows "calls (snd (generate_image e prompt a s ri ris ''fast'' w)) =
           calls w @ [server_request e prompt a s ''fast'' []]"
  using assms
  by (auto simp: generate_image_fast split: prod.splits sum.splits option.splits
      dest!: call_api_world save_image_keeps)

lemma generate_image_fast_used:
  "fst (generate_image e prompt a s ri ris ''fast'' w) = Inr r \<Longrightarrow> gr_reference_images_used r = 0"
  by (cases "key_missing e")
     (auto simp: generate_image_def tier_ref_paths_def resolve_fast
        split: prod.splits sum.splits option.splits)

lemma attempt_fast:
  "pd_quality pd = Some ''fast'' \<Longrightarrow>
   attempt e d i pd p w =
     (case call_api e (batch_request e pd [] p) w of
        (Inl x, w1) \<Rightarrow> (Inl x, w1)
      | (Inr image_data, w1) \<Rightarrow>
          (case save_image e (path_join e d (filename_of i pd)) image_data w1 of
             (Some x, w2) \<Rightarrow> (Inl x, w2)
           | (None, w2) \<Rightarrow>
               (Inr (Success (filename_of i pd) (path_join e d (filename_of i pd))
                       (batch_gemini_size pd) (aspect_ratio_of pd) 0),
                remove_from_queue (queue_filename_of i pd) w2)))"
  by (simp add: attempt_def fast_reference_images Let_def
      split: prod.splits sum.splits option.splits)

lemma remove_from_queue_calls: "calls (remove_from_queue f w) = calls w"
  by (simp add: remove_from_queue_def split: option.splits)

lemma attempt_fast_calls:
  "pd_quality pd = Some ''fast'' \<Longrightarrow>
   calls (snd (attempt e d i pd p w)) = calls w @ [batch_request e pd [] p]"
  by (auto simp: attempt_fast remove_from_queue_calls split: prod.splits sum.splits option.splits
      dest!: call_api_world save_image_keeps)

lemma attempt_fast_used:
  "pd_quality pd = Some ''fast'' \<Longrightarrow>
   fst (attempt e d i pd p w) = Inr (Success f pa r a k) \<Longrightarrow> k = 0"
  by (auto simp: attempt_fast split: prod.splits sum.splits option.splits)

text \<open>
  Claim C3. With the fast tier, whatever \<open>reference_images\<close> or \<open>reference_image\<close> the
  request carries: the one POST that immediate generation issues (none without a
  credential) has the prompt text as its only part, and a success reports zero
  reference images used; the same holds for a queue entry of the fast tier in the batch
  runner.
\<close>

theorem fast_tier_sends_no_reference_parts:
  "(key_missing e \<longrightarrow> calls (snd (generate_image e prompt a s ri ris ''fast'' w)) = calls w)
   \<and> (\<not> key_missing e \<longrightarrow>
        calls (snd (generate_image e prompt a s ri ris ''fast'' w)) =
          calls w @ [server_request e prompt a s ''fast'' []])
   \<and> req_parts (server_request e prompt a s ''fast'' []) = [TextPart prompt]
   \<and> (\<forall>r. fst (generate_image e prompt a s ri ris ''fast'' w) = Inr r \<longrightarrow>
          gr_reference_images_used r = 0)
   \<and> (pd_quality pd = Some ''fast'' \<longrightarrow>
        calls (snd (attempt e d i pd p w)) = calls w @ [batch_request e pd [] p]
        \<and> req_parts (batch_request e pd [] p) = [TextPart (Some p)]
        \<and> (\<forall>f pa r ar k. fst (attempt e d i pd p w) = Inr (Success f pa r ar k) \<longrightarrow> k = 0))"
proof -
  have 1: "key_missing e \<longrightarrow> calls (snd (generate_image e prompt a s ri ris ''fast'' w)) = calls w"
    by (simp add: generate_image_def)
  have 2: "req_parts (server_request e prompt a s ''fast'' []) = [TextPart prompt]"
    by (simp add: server_request_def build_request_def)
  have 3: "req_parts (batch_request e pd [] p) = [TextPart (Some p)]"
    by (simp add: batch_request_def build_request_def)
  have 4: "\<not> key_missing e \<longrightarrow>
        calls (snd (generate_image e prompt a s ri ris ''fast'' w)) =
          calls w @ [server_request e prompt a s ''fast'' []]"
    by (simp add: generate_image_fast_calls)
  have 5: "\<forall>r. fst (generate_image e prompt a s ri ris ''fast'' w) = Inr r \<longrightarrow>
          gr_reference_images_used r = 0"
    using generate_image_fast_used by blast
  have 6: "pd_quality pd = Some ''fast'' \<longrightarrow>
        calls (snd (attempt e d i pd p w)) = calls w @ [batch_request e pd [] p]"
    by (simp add: attempt_fast_calls)
  have 7: "pd_quality pd = Some ''fast'' \<longrightarrow>
        (\<forall>f pa r ar k. fst (attempt e d i pd p w) = Inr (Success f pa r ar k) \<longrightarrow> k = 0)"
    using attempt_fast_used by blast
  from 1 2 3 4 5 6 7 show ?thesis
    by (intro conjI impI) (erule (1) notE impE | assumption | simp)+
qed


theorem fast_tier_sends_no_reference_parts_witness:
  "calls (snd (generate_image (demo_env 200) (Some ''a cat'') ''1:1'' ''large'' None
            (Some (RefList [''/ref.png''])) ''fast'' (demo_world [dog_entry]))) =
     [\<lparr> req_url = ''https://generativelanguage.googleapis.com/v1beta/models/gemini-2.5-flash-image:generateContent?key=secret'',
        req_parts = [TextPart (Some ''a cat'')], req_aspect_ratio = ''1:1'',
        req_image_size = None \<rparr>]
   \<and> pd_reference_images dog_entry = Some [''/ref.png'']
   \<and> calls (snd (attempt (demo_env 200) ''/out'' 1 dog_entry ''a dog'' (demo_world [dog_entry]))) =
     [\<lparr> req_url = ''https://generativelanguage.googleapis.com/v1beta/models/gemini-2.5-flash-image:generateContent?key=secret'',
        req_parts = [TextPart (Some ''a dog'')], req_aspect_ratio = ''1:1'',
        req_image_size = None \<rparr>]"
proof -
  have k: "\<not> key_missing (demo_env 200)"
    by (simp add: key_missing_def demo_env_def)
  have q: "pd_quality dog_entry = Some ''fast''"
    by (simp add: dog_entry_def entry_def)
  have r: "pd_reference_images dog_entry = Some [''/ref.png'']"
    by (simp add: dog_entry_def entry_def)
  have s: "server_request (demo_env 200) (Some ''a cat'') ''1:1'' ''large'' ''fast'' [] =
     \<lparr> req_url = ''https://generativelanguage.googleapis.com/v1beta/models/gemini-2.5-flash-image:generateContent?key=secret'',
        req_parts = [TextPart (Some ''a cat'')], req_aspect_ratio = ''1:1'',
        req_image_size = None \<rparr>"
    by (simp add: server_request_def build_request_def resolve_fast api_url_def the_key_def
        demo_env_def)
  have b: "batch_request (demo_env 200) dog_entry [] ''a dog'' =
     \<lparr> req_url = ''https://generativelanguage.googleapis.com/v1beta/models/gemini-2.5-flash-image:generateContent?key=secret'',
        req_parts = [TextPart (Some ''a dog'')], req_aspect_ratio = ''1:1'',
        req_image_size = None \<rparr>"
    by (simp add: batch_request_def build_request_def model_of_def quality_of_def
        aspect_ratio_of_def resolve_fast api_url_def the_key_def demo_env_def dog_entry_def entry_def)
  from fast_tier_sends_no_reference_parts [of "demo_env 200" "Some ''a cat''" "''1:1''" "''large''"
      None "Some (RefList [''/ref.png''])" "demo_world [dog_entry]" dog_entry "''/out''" 1 "''a dog''"]
    k q r s b
  show ?thesis
    by (simp add: demo_world_def)
qed


section \<open>Messages with an unrecognized method\<close>

text \<open>
  Claim C10. A message object whose method is none of \<open>initialize\<close>, \<open>tools/list\<close>,
  \<open>tools/call\<close> and \<open>notifications/initialized\<close> (or that has no method) leaves the world
  as it is: nothing is sent, nothing is logged, and the loop reads the next line.
\<close>

theorem unrecognized_method_is_ignored:
  assumes "msg_method msg \<noteq> Some ''initialize''"
    and "msg_method msg \<noteq> Some ''tools/list''"
    and "msg_method msg \<noteq> Some ''tools/call''"
    and "msg_method msg \<noteq> Some ''notifications/initialized''"
  shows "handle_message e msg w = w
       \<and> main_loop e (JsonObject msg # ls) w = main_loop e ls w"
  using assms by (simp add: handle_message_def)

theorem unrecognized_method_is_ignored_witness:
  "handle_message (demo_env 200) ping_message (demo_world []) = demo_world []
   \<and> sent (fst (main_loop (demo_env 200) [JsonObject ping_message] (demo_world []))) = []
   \<and> snd (main_loop (demo_env 200) [JsonObject ping_message] (demo_world [])) = []"
  using unrecognized_method_is_ignored [of ping_message "demo_env 200" "demo_world []" "[]"]
  by (simp add: ping_message_def demo_world_def)

section \<open>The summary of a run\<close>

lemma attempt_success_outcome:
  "attempt e d i pd p w = (Inr out, w') \<Longrightarrow>
   out = Success (filename_of i pd) (path_join e d (filename_of i pd)) (batch_gemini_size pd)
           (aspect_ratio_of pd) (length (reference_images_of pd))"
  by (auto simp: attempt_def Let_def split: sum.splits option.splits prod.splits)

lemma process_entry_outcome:
  "process_entry e d n i pd (rs, w) = Inr (rs', w') \<Longrightarrow>
   \<exists>out. rs' = rs @ [out] \<and>
     (out = Success (filename_of i pd) (path_join e d (filename_of i pd)) (batch_gemini_size pd)
              (aspect_ratio_of pd) (length (reference_images_of pd))
      \<or> (\<exists>m. out = Failure (filename_of i pd) m))"
  by (auto simp: process_entry_def handle_attempt_def
      split: option.splits prod.splits sum.splits dest: attempt_success_outcome)

lemma batch_loop_outcomes:
  "batch_loop e d n i pds (rs, w) = Inr (rs', w') \<Longrightarrow>
   \<exists>outs. rs' = rs @ outs \<and> length outs = length pds \<and>
     (\<forall>k<length pds.
        outs ! k = Success (filename_of (i + k) (pds ! k)) (path_join e d (filename_of (i + k) (pds ! k)))
                     (batch_gemini_size (pds ! k)) (aspect_ratio_of (pds ! k))
                     (length (reference_images_of (pds ! k)))
        \<or> (\<exists>m. outs ! k = Failure (filename_of (i + k) (pds ! k)) m))"
proof (induction pds arbitrary: i rs w)
  case Nil
  then show ?case by simp
next
  case (Cons pd pds)
  from Cons.prems obtain st where step: "process_entry e d n i pd (rs, w) = Inr st"
    and rest: "batch_loop e d n (Suc i) pds st = Inr (rs', w')"
    by (auto split: sum.splits)
  obtain rs1 w1 where st: "st = (rs1, w1)" by (cases st)
  from process_entry_outcome [OF step [unfolded st]]
  obtain out where rs1: "rs1 = rs @ [out]"
    and out: "out = Success (filename_of i pd) (path_join e d (filename_of i pd)) (batch_gemini_size pd)
              (aspect_ratio_of pd) (length (reference_images_of pd))
      \<or> (\<exists>m. out = Failure (filename_of i pd) m)"
    by blast
  from Cons.IH [OF rest [unfolded st]]
  obtain outs where rs': "rs' = rs1 @ outs" and len: "length outs = length pds"
    and shape: "\<forall>k<length pds.
        outs ! k = Success (filename_of (Suc i + k) (pds ! k))
                     (path_join e d (filename_of (Suc i + k) (pds ! k)))
                     (batch_gemini_size (pds ! k)) (aspect_ratio_of (pds ! k))
                     (length (reference_images_of (pds ! k)))
        \<or> (\<exists>m. outs ! k = Failure (filename_of (Suc i + k) (pds ! k)) m)"
    by blast
  have "\<forall>k<length (pd # pds).
        (out # outs) ! k = Success (filename_of (i + k) ((pd # pds) ! k))
                     (path_join e d (filename_of (i + k) ((pd # pds) ! k)))
                     (batch_gemini_size ((pd # pds) ! k)) (aspect_ratio_of ((pd # pds) ! k))
                     (length (reference_images_of ((pd # pds) ! k)))
        \<or> (\<exists>m. (out # outs) ! k = Failure (filename_of (i + k) ((pd # pds) ! k)) m)"
  proof (intro allI impI)
    fix k assume k: "k < length (pd # pds)"
    show "(out # outs) ! k = Success (filename_of (i + k) ((pd # pds) ! k))
                     (path_join e d (filename_of (i + k) ((pd # pds) ! k)))
                     (batch_gemini_size ((pd # pds) ! k)) (aspect_ratio_of ((pd # pds) ! k))
                     (length (reference_images_of ((pd # pds) ! k)))
        \<or> (\<exists>m. (out # outs) ! k = Failure (filename_of (i + k) ((pd # pds) ! k)) m)"
    proof (cases k)
      case 0
      with out show ?thesis by simp
    next
      case (Suc j)
      with k have "j < length pds" by simp
      with shape Suc show ?thesis by simp
    qed
  qed
  with rs1 rs' len show ?case
    by (intro exI [of _ "out # outs"]) simp
qed

lemma count_by_constructor:
  "length (filter is_success rs) = length (filter (\<lambda>r. \<exists>f p s a k. r = Success f p s a k) rs)"
  "length (filter (\<lambda>r. \<not> is_success r) rs) = length (filter (\<lambda>r. \<exists>f m. r = Failure f m) rs)"
proof -
  have "is_success = (\<lambda>r. \<exists>f p s a k. r = Success f p s a k)"
    by (rule ext, case_tac r) auto
  then show "length (filter is_success rs) =
      length (filter (\<lambda>r. \<exists>f p s a k. r = Success f p s a k) rs)" by simp
  have "(\<lambda>r. \<not> is_success r) = (\<lambda>r. \<exists>f m. r = Failure f m)"
    by (rule ext, case_tac r) auto
  then show "length (filter (\<lambda>r. \<not> is_success r) rs) =
      length (filter (\<lambda>r. \<exists>f m. r = Failure f m) rs)" by simp
qed

text \<open>
  Claim C8. In a run that has a credential and a non-empty list of prompts and whose
  loop completes with the results \<open>results\<close>: if the summary file can be opened for
  writing, \<open>batch_results.json\<close> in the output directory holds exactly \<open>results\<close>; there is
  one outcome for each entry, in the entries' order (outcome \<open>k\<close> is the success outcome
  of entry \<open>k\<close>, with its effective filename, path, resolution, aspect ratio and
  reference count, or an error outcome under that filename); and the totals reported
  are the number of entries, the number of success outcomes and the number of error
  outcomes, the last two adding up to the first.
\<close>

theorem batch_summary_is_persisted:
  assumes key: "\<not> key_missing e"
    and nonempty: "prompts \<noteq> []"
    and loop: "batch_loop e output_dir (length prompts) 1 prompts ([], w) = Inr (results, w')"
    and writable: "open_write_error e (path_join e output_dir ''batch_results.json'') = None"
  shows "generate_images_batch e prompts output_dir w =
           Inr (Some \<lparr> br_total = length prompts,
                       br_success = length (filter (\<lambda>r. \<exists>f p s a k. r = Success f p s a k) results),
                       br_failed = length (filter (\<lambda>r. \<exists>f m. r = Failure f m) results) \<rparr>,
                w'\<lparr>files := (files w')(path_join e output_dir ''batch_results.json''
                                        \<mapsto> ResultsJson results)\<rparr>)
       \<and> length results = length prompts
       \<and> (\<forall>k<length prompts.
             results ! k =
               Success (filename_of (Suc k) (prompts ! k))
                 (path_join e output_dir (filename_of (Suc k) (prompts ! k)))
                 (batch_gemini_size (prompts ! k)) (aspect_ratio_of (prompts ! k))
                 (length (reference_images_of (prompts ! k)))
             \<or> (\<exists>m. results ! k = Failure (filename_of (Suc k) (prompts ! k)) m))
       \<and> length (filter (\<lambda>r. \<exists>f p s a k. r = Success f p s a k) results)
           + length (filter (\<lambda>r. \<exists>f m. r = Failure f m) results) = length prompts"
proof -
  from batch_loop_outcomes [OF loop]
  have len: "length results = length prompts"
    and shape: "\<forall>k<length prompts.
             results ! k =
               Success (filename_of (Suc k) (prompts ! k))
                 (path_join e output_dir (filename_of (Suc k) (prompts ! k)))
                 (batch_gemini_size (prompts ! k)) (aspect_ratio_of (prompts ! k))
                 (length (reference_images_of (prompts ! k)))
             \<or> (\<exists>m. results ! k = Failure (filename_of (Suc k) (prompts ! k)) m)"
    by auto
  have run: "generate_images_batch e prompts output_dir w =
           Inr (Some \<lparr> br_total = length prompts,
                       br_success = length (filter (\<lambda>r. \<exists>f p s a k. r = Success f p s a k) results),
                       br_failed = length (filter (\<lambda>r. \<exists>f m. r = Failure f m) results) \<rparr>,
                w'\<lparr>files := (files w')(path_join e output_dir ''batch_results.json''
                                        \<mapsto> ResultsJson results)\<rparr>)"
    using key nonempty loop writable
    by (simp add: generate_images_batch_def write_results_def count_by_constructor)
  have count: "length (filter (\<lambda>r. \<exists>f p s a k. r = Success f p s a k) results)
           + length (filter (\<lambda>r. \<exists>f m. r = Failure f m) results) = length prompts"
    using sum_length_filter_compl [of is_success results] len
    by (simp add: count_by_constructor)
  from run len shape count show ?thesis by blast
qed


theorem batch_summary_is_persisted_witness:
  "generate_images_batch (demo_env 200) [cat_entry, dog_entry] ''/out''
       (demo_world [cat_entry, dog_entry]) =
     Inr (Some \<lparr> br_total = 2, br_success = 1, br_failed = 1 \<rparr>,
          (demo_world [cat_entry])\<lparr>files :=
              [''/out/dog.png'' \<mapsto> Bytes ''hello'',
               ''/out/batch_results.json'' \<mapsto>
                 ResultsJson [Failure ''cat.png'' ''Reference image not found: /missing.png'',
                              Success ''dog.png'' ''/out/dog.png'' ''2K'' ''1:1'' 0]],
             calls := [batch_request (demo_env 200) dog_entry [] ''a dog''], slept := 1\<rparr>)"
proof -
  have k: "\<not> key_missing (demo_env 200)"
    by (simp add: key_missing_def demo_env_def)
  have n: "[cat_entry, dog_entry] \<noteq> []" by simp
  have run: "batch_loop (demo_env 200) ''/out'' (length [cat_entry, dog_entry]) 1 [cat_entry, dog_entry]
       ([], demo_world [cat_entry, dog_entry]) =
     Inr ([Failure ''cat.png'' ''Reference image not found: /missing.png'',
           Success ''dog.png'' ''/out/dog.png'' ''2K'' ''1:1'' 0],
          (demo_world [cat_entry])\<lparr>files := [''/out/dog.png'' \<mapsto> Bytes ''hello''],
             calls := [batch_request (demo_env 200) dog_entry [] ''a dog''], slept := 1\<rparr>)"
    by (simp add: run_defs cat_entry_def dog_entry_def)
  have o: "open_write_error (demo_env 200) (path_join (demo_env 200) ''/out'' ''batch_results.json'') = None"
    by (simp add: demo_env_def)
  have j: "path_join (demo_env 200) ''/out'' ''batch_results.json'' = ''/out/batch_results.json''"
    by (simp add: demo_env_def)
  from batch_summary_is_persisted [OF k n run o, THEN conjunct1]
  show ?thesis
    unfolding j by (simp add: demo_world_def)
qed

section \<open>The limit on reference images\<close>

lemma normalize_too_many:
  "max_ref_images e < length l \<Longrightarrow>
   normalize_reference_images e (Some (RefList l)) ri = Inl (TooManyRefs (length l) (max_ref_images e))"
  by (auto simp: normalize_reference_images_def collect_paths_def Let_def)

text \<open>
  Claim C4, as amended. When the effective tier is pro and the \<open>reference_images\<close> list is
  longer than \<open>MAX_REF_IMAGES\<close>: immediate generation with a credential fails with the error
  "Too many reference images (n). Maximum is MAX_REF_IMAGES." and leaves the world as it
  was, so no POST is issued; enqueueing fails with the same error before the batch
  manager is run.
\<close>

theorem pro_tier_reference_limit:
  assumes pro: "fst (resolve_quality quality) = ''pro''"
    and many: "max_ref_images e < length l"
  shows "(\<not> key_missing e \<longrightarrow>
            generate_image e prompt a s ri (Some (RefList l)) quality w =
              (Inl (TooManyRefs (length l) (max_ref_images e)), w))
       \<and> add_to_batch e prompt fn a s description ri (Some (RefList l)) quality w =
              (Inl (TooManyRefs (length l) (max_ref_images e)), w)
       \<and> str_of_exn (TooManyRefs (length l) (max_ref_images e)) =
           ''Too many reference images ('' @ str_of_nat (length l) @ ''). Maximum is ''
             @ str_of_nat (max_ref_images e) @ ''.''"
  using pro normalize_too_many [OF many]
  by (simp add: generate_image_def add_to_batch_def tier_ref_paths_def)

theorem pro_tier_reference_limit_witness:
  "generate_image (demo_env 200) (Some ''a cat'') ''1:1'' ''large'' None (Some (RefList fifteen_paths))
       ''pro'' (demo_world []) = (Inl (TooManyRefs 15 14), demo_world [])
   \<and> str_of_exn (TooManyRefs 15 14) = ''Too many reference images (15). Maximum is 14.''"
proof -
  have k: "\<not> key_missing (demo_env 200)"
    by (simp add: key_missing_def demo_env_def)
  have m: "max_ref_images (demo_env 200) = 14"
    by (simp add: demo_env_def)
  have l: "length fifteen_paths = 15"
    by (simp add: fifteen_paths_def)
  have p: "fst (resolve_quality ''pro'') = ''pro''"
    by (simp add: resolve_quality_def models_def)
  from m l have many: "max_ref_images (demo_env 200) < length fifteen_paths" by simp
  from pro_tier_reference_limit [OF p many, of "Some ''a cat''" "''1:1''" "''large''" None "demo_world []"]
    k m l show ?thesis
    by (simp add: str_of_nat.simps digit_char_def)
qed

text \<open>
  The claim as stated fails for the fast tier: fifteen reference images with a limit of
  fourteen are dropped without an error, the POST is issued and the image is generated.
\<close>

theorem fast_tier_ignores_reference_limit:
  "max_ref_images (demo_env 200) = 14 \<and> length fifteen_paths = 15
   \<and> fst (generate_image (demo_env 200) (Some ''a cat'') ''1:1'' ''large'' None
            (Some (RefList fifteen_paths)) ''fast'' (demo_world [])) =
       Inr \<lparr> gr_image_path = ''/img/gemini_image_20260101_120000.png'', gr_resolution = ''1K'',
             gr_aspect_ratio = ''1:1'', gr_quality = ''fast'', gr_model = ''gemini-2.5-flash-image'',
             gr_reference_images_used = 0,
             gr_message = ''Image generated successfully (fast mode): /img/gemini_image_20260101_120000.png'' \<rparr>
   \<and> length (calls (snd (generate_image (demo_env 200) (Some ''a cat'') ''1:1'' ''large'' None
            (Some (RefList fifteen_paths)) ''fast'' (demo_world [])))) = 1"
  by (simp add: generate_image_def key_missing_def tier_ref_paths_def resolve_quality_def models_def
      call_api_def server_request_def build_request_def save_image_def image_filename_def
      gemini_size_of_def size_map_def remap_size_def image_response_def
      demo_env_def demo_world_def fifteen_paths_def Let_def)

section \<open>The status check\<close>

lemma save_image_error:
  "save_image e p d w = (Some x, w2) \<Longrightarrow> \<exists>m. x = LibraryError m"
  by (auto simp: save_image_def split: option.splits sum.splits)

lemma call_api_not_200:
  "http_post e (length (calls w)) r = Inr resp \<Longrightarrow> status_code resp \<noteq> 200 \<Longrightarrow>
   call_api e r w = (Inl (ApiError (status_code resp) (resp_text resp)), w\<lparr>calls := calls w @ [r]\<rparr>)"
  by (simp add: call_api_def Let_def)

lemma call_api_200:
  "http_post e (length (calls w)) r = Inr resp \<Longrightarrow> status_code resp = 200 \<Longrightarrow>
   fst (call_api e r w) \<noteq> Inl (ApiError st b)"
  by (simp add: call_api_def Let_def split: sum.splits option.splits)

lemma generate_image_posts:
  assumes "\<not> key_missing e"
    and "tier_ref_paths e (fst (resolve_quality quality)) ris ri = Inr paths"
    and "encode_reference_images e w paths = Inr parts"
  shows "generate_image e prompt a s ri ris quality w =
     (case call_api e (server_request e prompt a s quality parts) w of
        (Inl x, w1) \<Rightarrow> (Inl x, w1)
      | (Inr image_data, w1) \<Rightarrow>
          (case makedirs_error e (images_dir e) of
             Some m \<Rightarrow> (Inl (LibraryError m), w1)
           | None \<Rightarrow>
               (case save_image e (image_filename e w1) image_data w1 of
                  (Some x, w2) \<Rightarrow> (Inl x, w2)
                | (None, w2) \<Rightarrow>
                    (Inr \<lparr> gr_image_path = image_filename e w1,
                           gr_resolution =
                             gemini_size_of (remap_size (fst (resolve_quality quality)) s),
                           gr_aspect_ratio = a,
                           gr_quality = fst (resolve_quality quality),
                           gr_model = snd (resolve_quality quality),
                           gr_reference_images_used = length paths,
                           gr_message =
                             ''Image generated successfully ('' @ fst (resolve_quality quality)
                               @ '' mode): '' @ image_filename e w1 \<rparr>,
                     w2))))"
  using assms by (simp add: generate_image_def)

lemma attempt_posts:
  assumes "encode_reference_images e w (reference_images_of pd) = Inr parts"
  shows "attempt e d i pd p w =
     (case call_api e (batch_request e pd parts p) w of
        (Inl x, w1) \<Rightarrow> (Inl x, w1)
      | (Inr image_data, w1) \<Rightarrow>
          (case save_image e (path_join e d (filename_of i pd)) image_data w1 of
             (Some x, w2) \<Rightarrow> (Inl x, w2)
           | (None, w2) \<Rightarrow>
               (Inr (Success (filename_of i pd) (path_join e d (filename_of i pd))
                       (batch_gemini_size pd) (aspect_ratio_of pd)
                       (length (reference_images_of pd))),
                remove_from_queue (queue_filename_of i pd) w2)))"
  using assms by (simp add: attempt_def Let_def split: prod.splits sum.splits)

lemma server_status_check:
  assumes key: "\<not> key_missing e"
    and paths: "tier_ref_paths e (fst (resolve_quality quality)) ris ri = Inr paths"
    and parts: "encode_reference_images e w paths = Inr parts"
    and post: "http_post e (length (calls w)) (server_request e prompt a s quality parts) = Inr resp"
  shows "calls (snd (generate_image e prompt a s ri ris quality w)) =
           calls w @ [server_request e prompt a s quality parts]"
    and "status_code resp \<noteq> 200 \<Longrightarrow>
         generate_image e prompt a s ri ris quality w =
           (Inl (ApiError (status_code resp) (resp_text resp)),
            w\<lparr>calls := calls w @ [server_request e prompt a s quality parts]\<rparr>)"
    and "status_code resp = 200 \<Longrightarrow>
         fst (generate_image e prompt a s ri ris quality w) \<noteq> Inl (ApiError st b)"
proof -
  note g = generate_image_posts [OF key paths parts]
  show "calls (snd (generate_image e prompt a s ri ris quality w)) =
           calls w @ [server_request e prompt a s quality parts]"
    unfolding g
    by (auto split: prod.splits sum.splits option.splits dest!: call_api_world save_image_keeps)
  show "generate_image e prompt a s ri ris quality w =
           (Inl (ApiError (status_code resp) (resp_text resp)),
            w\<lparr>calls := calls w @ [server_request e prompt a s quality parts]\<rparr>)"
    if "status_code resp \<noteq> 200"
    unfolding g by (simp add: call_api_not_200 [OF post that])
  show "fst (generate_image e prompt a s ri ris quality w) \<noteq> Inl (ApiError st b)"
    if "status_code resp = 200"
    using call_api_200 [OF post that, of st b] unfolding g
    by (auto split: prod.splits sum.splits option.splits dest!: save_image_error)
qed

lemma batch_status_check:
  assumes parts: "encode_reference_images e w (reference_images_of pd) = Inr parts"
    and post: "http_post e (length (calls w)) (batch_request e pd parts p) = Inr resp"
  shows "calls (snd (attempt e d i pd p w)) = calls w @ [batch_request e pd parts p]"
    and "status_code resp \<noteq> 200 \<Longrightarrow>
         attempt e d i pd p w =
           (Inl (ApiError (status_code resp) (resp_text resp)),
            w\<lparr>calls := calls w @ [batch_request e pd parts p]\<rparr>)"
    and "status_code resp = 200 \<Longrightarrow> fst (attempt e d i pd p w) \<noteq> Inl (ApiError st b)"
proof -
  note g = attempt_posts [OF parts]
  show "calls (snd (attempt e d i pd p w)) = calls w @ [batch_request e pd parts p]"
    unfolding g
    by (auto simp: remove_from_queue_calls split: prod.splits sum.splits option.splits
        dest!: call_api_world save_image_keeps)
  show "attempt e d i pd p w =
           (Inl (ApiError (status_code resp) (resp_text resp)),
            w\<lparr>calls := calls w @ [batch_request e pd parts p]\<rparr>)"
    if "status_code resp \<noteq> 200"
    unfolding g by (simp add: call_api_not_200 [OF post that])
  show "fst (attempt e d i pd p w) \<noteq> Inl (ApiError st b)"
    if "status_code resp = 200"
    using call_api_200 [OF post that, of st b] unfolding g
    by (auto split: prod.splits sum.splits option.splits dest!: save_image_error)
qed

text \<open>
  Claim C5, as amended. Once a generation call has passed the credential check and
  encoded its references, it issues exactly one POST (nothing retries it). When the
  answer to that POST has a status other than 200, the call fails with the error
  "API error: status - body", status and body taken over unchanged; in the batch runner
  this is the message of the entry's error outcome. When the status is 200 the call
  does not fail with that error.
\<close>

theorem status_other_than_200_fails:
  "(\<not> key_missing e
      \<and> tier_ref_paths e (fst (resolve_quality quality)) ris ri = Inr paths
      \<and> encode_reference_images e w paths = Inr parts
      \<and> http_post e (length (calls w)) (server_request e prompt a s quality parts) = Inr resp
    \<longrightarrow> calls (snd (generate_image e prompt a s ri ris quality w)) =
          calls w @ [server_request e prompt a s quality parts]
      \<and> (status_code resp \<noteq> 200 \<longrightarrow>
            generate_image e prompt a s ri ris quality w =
              (Inl (ApiError (status_code resp) (resp_text resp)),
               w\<lparr>calls := calls w @ [server_request e prompt a s quality parts]\<rparr>))
      \<and> (status_code resp = 200 \<longrightarrow>
            (\<forall>st b. fst (generate_image e prompt a s ri ris quality w) \<noteq> Inl (ApiError st b))))
   \<and> (encode_reference_images e w (reference_images_of pd) = Inr bparts
      \<and> http_post e (length (calls w)) (batch_request e pd bparts p) = Inr bresp
    \<longrightarrow> calls (snd (attempt e d i pd p w)) = calls w @ [batch_request e pd bparts p]
      \<and> (status_code bresp \<noteq> 200 \<and> pd_prompt pd = Some p \<longrightarrow>
            process_entry e d n i pd (rs, w) =
              Inr (rs @ [Failure (filename_of i pd)
                           (''API error: '' @ str_of_nat (status_code bresp) @ '' - ''
                              @ resp_text bresp)],
                   pause i n (w\<lparr>calls := calls w @ [batch_request e pd bparts p]\<rparr>)))
      \<and> (status_code bresp = 200 \<longrightarrow>
            (\<forall>st b. fst (attempt e d i pd p w) \<noteq> Inl (ApiError st b))))
   \<and> str_of_exn (ApiError status body) = ''API error: '' @ str_of_nat status @ '' - '' @ body"
proof (intro conjI impI allI; (elim conjE)?)
  show "str_of_exn (ApiError status body) = ''API error: '' @ str_of_nat status @ '' - '' @ body"
    by simp
next
  assume "encode_reference_images e w (reference_images_of pd) = Inr bparts"
    and "http_post e (length (calls w)) (batch_request e pd bparts p) = Inr bresp"
    and "status_code bresp \<noteq> 200" and "pd_prompt pd = Some p"
  then show "process_entry e d n i pd (rs, w) =
              Inr (rs @ [Failure (filename_of i pd)
                           (''API error: '' @ str_of_nat (status_code bresp) @ '' - ''
                              @ resp_text bresp)],
                   pause i n (w\<lparr>calls := calls w @ [batch_request e pd bparts p]\<rparr>))"
    using process_entry_failure [of pd p e d i w "ApiError (status_code bresp) (resp_text bresp)"]
      batch_status_check(2) [of e w pd bparts p bresp d i]
    by simp
qed (simp_all add: server_status_check batch_status_check)


lemma demo_key: "\<not> key_missing (demo_env status)"
  by (simp add: key_missing_def demo_env_def)

theorem status_other_than_200_fails_witness:
  "generate_image (demo_env 500) (Some ''a cat'') ''1:1'' ''large'' None None ''pro''
       (demo_world [dog_entry]) =
     (Inl (ApiError 500 ''body''),
      (demo_world [dog_entry])\<lparr>calls :=
         [server_request (demo_env 500) (Some ''a cat'') ''1:1'' ''large'' ''pro'' []]\<rparr>)
   \<and> process_entry (demo_env 500) ''/out'' 2 1 dog_entry ([], demo_world [dog_entry]) =
       Inr ([Failure ''dog.png'' ''API error: 500 - body''],
            pause 1 2 ((demo_world [dog_entry])\<lparr>calls :=
               [batch_request (demo_env 500) dog_entry [] ''a dog'']\<rparr>))"
proof -
  have paths: "tier_ref_paths (demo_env 500) (fst (resolve_quality ''pro'')) None None = Inr []"
    by (simp add: tier_ref_paths_def resolve_pro normalize_reference_images_def collect_paths_def
        single_path_def)
  have parts: "encode_reference_images (demo_env 500) (demo_world [dog_entry]) [] = Inr []"
    by simp
  have post: "http_post (demo_env 500) (length (calls (demo_world [dog_entry])))
                (server_request (demo_env 500) (Some ''a cat'') ''1:1'' ''large'' ''pro'' []) =
              Inr (image_response 500)"
    by (simp add: demo_env_def)
  have st: "status_code (image_response 500) \<noteq> 200"
    by (simp add: image_response_def)
  have q: "pd_quality dog_entry = Some ''fast''" and p: "pd_prompt dog_entry = Some ''a dog''"
    by (simp_all add: dog_entry_def entry_def)
  have bparts: "encode_reference_images (demo_env 500) (demo_world [dog_entry])
                  (reference_images_of dog_entry) = Inr []"
    by (simp add: fast_reference_images [OF q])
  have bpost: "http_post (demo_env 500) (length (calls (demo_world [dog_entry])))
                (batch_request (demo_env 500) dog_entry [] ''a dog'') = Inr (image_response 500)"
    by (simp add: demo_env_def)
  have f: "filename_of 1 dog_entry = ''dog.png''"
    by (simp add: filename_of_def queue_filename_of_def dog_entry_def entry_def suffix_Cons)
  note inst = status_other_than_200_fails [where e = "demo_env 500" and quality = "''pro''"
      and ris = None and ri = None and paths = "[]" and parts = "[]" and w = "demo_world [dog_entry]"
      and prompt = "Some ''a cat''" and a = "''1:1''" and s = "''large''"
      and resp = "image_response 500" and pd = dog_entry and bparts = "[]" and p = "''a dog''"
      and bresp = "image_response 500" and d = "''/out''" and i = 1 and n = 2 and rs = "[]"]
  from inst [THEN conjunct1] demo_key [of 500] paths parts post st
  have server: "generate_image (demo_env 500) (Some ''a cat'') ''1:1'' ''large'' None None ''pro''
       (demo_world [dog_entry]) =
     (Inl (ApiError 500 ''body''),
      (demo_world [dog_entry])\<lparr>calls :=
         [server_request (demo_env 500) (Some ''a cat'') ''1:1'' ''large'' ''pro'' []]\<rparr>)"
    by (simp add: image_response_def demo_world_def)
  from inst [THEN conjunct2, THEN conjunct1] bparts bpost st p f
  have batch: "process_entry (demo_env 500) ''/out'' 2 1 dog_entry ([], demo_world [dog_entry]) =
       Inr ([Failure ''dog.png'' ''API error: 500 - body''],
            pause 1 2 ((demo_world [dog_entry])\<lparr>calls :=
               [batch_request (demo_env 500) dog_entry [] ''a dog'']\<rparr>))"
    by (simp add: image_response_def demo_world_def str_of_nat.simps digit_char_def)
  from server batch show ?thesis by (rule conjI)
qed

text \<open>
  The claim as stated fails for a 2xx status other than 200: a 201 answer that carries
  an image is reported as "API error: 201 - body".
\<close>

theorem status_201_is_a_failure:
  "status_code (image_response 201) = 201
   \<and> resp_parts (image_response 201) = Inr [RespText ''here it is'', RespInline ''aGVsbG8='']
   \<and> http_post (demo_env 201) 0
        (server_request (demo_env 201) (Some ''a cat'') ''1:1'' ''large'' ''pro'' []) =
       Inr (image_response 201)
   \<and> fst (generate_image (demo_env 201) (Some ''a cat'') ''1:1'' ''large'' None None ''pro''
            (demo_world [])) = Inl (ApiError 201 ''body'')
   \<and> str_of_exn (ApiError 201 ''body'') = ''API error: 201 - body''"
  by (simp add: generate_image_def key_missing_def tier_ref_paths_def resolve_pro
      normalize_reference_images_def collect_paths_def single_path_def call_api_def
      image_response_def demo_env_def demo_world_def str_of_nat.simps digit_char_def Let_def)

section \<open>The other ways an attempt fails\<close>

text \<open>
  A network error, a 200 answer without image data, an output file that cannot be
  opened and a payload that does not decode each end the attempt with an exception, so
  each is a failure in the sense of the isolation theorem above.
\<close>

lemma attempt_no_image_data:
  assumes "encode_reference_images e w (reference_images_of pd) = Inr parts"
    and "http_post e (length (calls w)) (batch_request e pd parts p) = Inr resp"
    and "status_code resp = 200"
    and "resp_parts resp = Inr ps"
    and "first_inline ps = None \<or> first_inline ps = Some []"
  shows "attempt e d i pd p w =
           (Inl NoImageData, w\<lparr>calls := calls w @ [batch_request e pd parts p]\<rparr>)"
  using assms by (auto simp: attempt_posts call_api_def Let_def)

lemma attempt_write_error:
  assumes "encode_reference_images e w (reference_images_of pd) = Inr parts"
    and "call_api e (batch_request e pd parts p) w = (Inr image_data, w1)"
    and "open_write_error e (path_join e d (filename_of i pd)) = Some m"
  shows "attempt e d i pd p w = (Inl (LibraryError m), w1)"
  using assms by (simp add: attempt_posts save_image_def)

lemma attempt_decode_error:
  assumes "encode_reference_images e w (reference_images_of pd) = Inr parts"
    and "call_api e (batch_request e pd parts p) w = (Inr image_data, w1)"
    and "open_write_error e (path_join e d (filename_of i pd)) = None"
    and "b64decode e image_data = Inl m"
  shows "attempt e d i pd p w =
           (Inl (LibraryError m),
            w1\<lparr>files := (files w1)(path_join e d (filename_of i pd) \<mapsto> Bytes [])\<rparr>)"
  using assms by (simp add: attempt_posts save_image_def)

lemma attempt_network_error:
  assumes "encode_reference_images e w (reference_images_of pd) = Inr parts"
    and "http_post e (length (calls w)) (batch_request e pd parts p) = Inl m"
  shows "attempt e d i pd p w =
           (Inl (LibraryError m), w\<lparr>calls := calls w @ [batch_request e pd parts p]\<rparr>)"
  using assms by (simp add: attempt_posts call_api_def Let_def)

section \<open>A missing reference image\<close>






section \<open>The size class and the resolution\<close>

lemma size_table:
  "gemini_size_of ''small'' = ''1K''" "gemini_size_of ''medium'' = ''2K''"
  "gemini_size_of ''large'' = ''2K''" "gemini_size_of ''xlarge'' = ''4K''"
  by (simp_all add: gemini_size_of_def size_map_def)

lemma remap_size_fast_large: "remap_size ''fast'' ''large'' = ''small''"
  by (simp add: remap_size_def)

lemma remap_size_pro: "remap_size ''pro'' image_size = image_size"
  by (simp add: remap_size_def)

lemma generate_image_fast_large:
  "fst (generate_image e prompt a ''large'' ri ris ''fast'' w) = Inr r \<Longrightarrow> gr_resolution r = ''1K''"
  by (cases "key_missing e")
     (auto simp: generate_image_def tier_ref_paths_def resolve_fast remap_size_def size_table
        split: prod.splits sum.splits option.splits)

lemma generate_image_pro_size:
  "fst (generate_image e prompt a image_size ri ris ''pro'' w) = Inr r \<Longrightarrow>
   gr_resolution r = gemini_size_of image_size"
  by (cases "key_missing e")
     (auto simp: generate_image_def resolve_pro remap_size_def
        split: prod.splits sum.splits option.splits)

lemma add_to_batch_fast_large:
  "add_to_batch e (Some p) fn a ''large'' description ri ris ''fast'' w =
     run_manager e (add_command e p fn a ''small'' [] ''fast'') w"
  by (simp add: add_to_batch_def tier_ref_paths_def resolve_fast remap_size_def)

lemma batch_runner_pro_size:
  "pd_quality pd = Some ''pro'' \<Longrightarrow> batch_gemini_size pd = gemini_size_of (image_size_of pd)"
  by (simp add: batch_gemini_size_def)

text \<open>
  Claim C6 holds for immediate generation and for enqueueing (the lemmas above), and for
  the pro tier everywhere. The batch runner itself never remaps: for an entry of the
  fast tier whose size class is \<open>large\<close>, or absent and so defaulted to \<open>large\<close>, it
  resolves and reports \<open>2K\<close>.
\<close>

theorem batch_runner_keeps_large_for_fast:
  "pd_quality bare_fast_entry = Some ''fast'' \<and> pd_image_size bare_fast_entry = None
   \<and> attempt (demo_env 200) ''/out'' 1 bare_fast_entry ''a dog'' (demo_world [bare_fast_entry]) =
       (Inr (Success ''dog.png'' ''/out/dog.png'' ''2K'' ''1:1'' 0),
        (demo_world [])\<lparr>files := [''/out/dog.png'' \<mapsto> Bytes ''hello''],
                          calls := [batch_request (demo_env 200) bare_fast_entry [] ''a dog'']\<rparr>)
   \<and> pd_quality dog_entry = Some ''fast'' \<and> pd_image_size dog_entry = Some ''large''
   \<and> batch_gemini_size dog_entry = ''2K''"
  by (simp add: attempt_def reference_images_of_def quality_of_def resolve_fast
      call_api_def save_image_def remove_from_queue_def queue_store_remove_def parse_index_def
      is_digit_def filename_of_def queue_filename_of_def batch_gemini_size_def image_size_of_def
      aspect_ratio_of_def gemini_size_of_def size_map_def image_response_def
      bare_fast_entry_def dog_entry_def entry_def demo_env_def demo_world_def Let_def suffix_Cons)


section \<open>The dispatcher's answers and its loop\<close>

lemma unknown_tool_response:
  "name \<notin> set catalog \<Longrightarrow>
   handle_tool_call e request_id (Some name) args w =
     send_message (request_id, ErrorBody (- 32000) (''Unknown tool: '' @ name)) w"
  by (simp add: handle_tool_call_def call_tool_def catalog_def)

lemma handle_tool_call_responds:
  "\<exists>body w'. handle_tool_call e request_id name args w = send_message (request_id, body) w'"
  by (cases "call_tool e name args w"; cases "fst (call_tool e name args w)")
     (auto simp: handle_tool_call_def)

lemma main_loop_reads_all:
  "JsonNull \<notin> set ls \<Longrightarrow> snd (main_loop e ls w) = []"
  by (induction ls arbitrary: w) (auto split: line.splits)

lemma unknown_tool_message:
  assumes "msg_method msg = Some ''tools/call''"
    and "msg_params msg = ParamsObject (Some name) args"
    and "name \<notin> set catalog"
  shows "handle_message e msg w =
           send_message (msg_id msg, ErrorBody (- 32000) (''Unknown tool: '' @ name)) w"
  using assms by (simp add: handle_message_def unknown_tool_response)

lemma main_loop_never_stops_on_a_failure:
  "l \<noteq> JsonNull \<Longrightarrow> \<exists>w'. main_loop e (l # ls) w = main_loop e ls w'"
  by (cases l) auto

text \<open>
  Claim C9 holds for the error envelope and for failures inside an operation (the
  lemmas above), and the loop reads every line as long as none decodes to \<open>null\<close>. A
  line holding \<open>null\<close> ends the loop with the channel still open: the request after it
  is never read, although the same request alone is answered.
\<close>

theorem null_line_ends_the_loop:
  "main_loop (demo_env 200) [JsonNull, JsonObject list_message] (demo_world []) =
     (demo_world [], [JsonObject list_message])
   \<and> main_loop (demo_env 200) [JsonObject list_message] (demo_world []) =
     ((demo_world [])\<lparr>sent := [(IdInt 1, ToolsListResult catalog)]\<rparr>, [])"
  by (simp add: handle_message_def list_message_def send_message_def demo_world_def)


section \<open>Succeeded entries and the queue\<close>

lemma remove_first_unique:
  "\<forall>x\<in>set pre. pd_filename x \<noteq> Some f \<Longrightarrow> pd_filename pd = Some f \<Longrightarrow>
   remove_first f (pre @ pd # post) = Some (pre @ post)"
  by (induction pre) auto

lemma queue_store_remove_by_name:
  "parse_index f = None \<Longrightarrow> queue_store_remove f q = remove_first f q"
  by (simp add: queue_store_remove_def)

lemma remove_from_queue_files: "files (remove_from_queue f w) = files w"
  by (simp add: remove_from_queue_def split: option.splits)

lemma call_api_success:
  "call_api e r w = (Inr image_data, w1) \<Longrightarrow>
   \<exists>resp ps. http_post e (length (calls w)) r = Inr resp \<and> status_code resp = 200
     \<and> resp_parts resp = Inr ps \<and> first_inline ps = Some image_data
     \<and> w1 = w\<lparr>calls := calls w @ [r]\<rparr>"
  by (auto simp: call_api_def Let_def split: sum.splits option.splits if_splits)

lemma save_image_success:
  "save_image e path image_data w = (None, w2) \<Longrightarrow>
   \<exists>bytes. b64decode e image_data = Inr bytes
     \<and> w2 = w\<lparr>files := (files w)(path \<mapsto> Bytes bytes)\<rparr>"
  by (auto simp: save_image_def split: option.splits sum.splits)

lemma attempt_success_exact:
  assumes "attempt e d i pd p w = (Inr out, w')"
  shows "\<exists>parts resp ps image_data bytes.
           encode_reference_images e w (reference_images_of pd) = Inr parts
         \<and> http_post e (length (calls w)) (batch_request e pd parts p) = Inr resp
         \<and> status_code resp = 200
         \<and> resp_parts resp = Inr ps
         \<and> first_inline ps = Some image_data
         \<and> b64decode e image_data = Inr bytes
         \<and> files w' (path_join e d (filename_of i pd)) = Some (Bytes bytes)
         \<and> w' = remove_from_queue (queue_filename_of i pd)
                  (w\<lparr>calls := calls w @ [batch_request e pd parts p],
                     files := (files w)(path_join e d (filename_of i pd) \<mapsto> Bytes bytes)\<rparr>)"
proof -
  from assms obtain parts image_data w1 w2 where
    enc: "encode_reference_images e w (reference_images_of pd) = Inr parts"
    and api: "call_api e (batch_request e pd parts p) w = (Inr image_data, w1)"
    and sv: "save_image e (path_join e d (filename_of i pd)) image_data w1 = (None, w2)"
    and w': "w' = remove_from_queue (queue_filename_of i pd) w2"
    by (auto simp: attempt_def Let_def split: sum.splits prod.splits option.splits)
  from call_api_success [OF api] obtain resp ps where
    post: "http_post e (length (calls w)) (batch_request e pd parts p) = Inr resp"
    and st: "status_code resp = 200"
    and ps: "resp_parts resp = Inr ps" and inl: "first_inline ps = Some image_data"
    and w1: "w1 = w\<lparr>calls := calls w @ [batch_request e pd parts p]\<rparr>"
    by blast
  from save_image_success [OF sv] obtain bytes where
    dec: "b64decode e image_data = Inr bytes"
    and w2: "w2 = w1\<lparr>files := (files w1)(path_join e d (filename_of i pd) \<mapsto> Bytes bytes)\<rparr>"
    by blast
  from w1 w2 have w2': "w2 = w\<lparr>calls := calls w @ [batch_request e pd parts p],
                     files := (files w)(path_join e d (filename_of i pd) \<mapsto> Bytes bytes)\<rparr>"
    by simp
  from w' w2' have written: "files w' (path_join e d (filename_of i pd)) = Some (Bytes bytes)"
    by (simp add: remove_from_queue_files)
  from enc post st ps inl dec written w' w2' show ?thesis by blast
qed

lemma process_entry_success:
  assumes "pd_prompt pd = Some p" and "attempt e d i pd p w = (Inr out, w')"
  shows "process_entry e d n i pd (rs, w) = Inr (rs @ [out], pause i n w')"
  using assms by (simp add: process_entry_def handle_attempt_def)

lemma loop_queue_invariant:
  assumes "batch_loop e d n i pds (rs, w) = Inr (rs', w')"
    and "queue w = pre @ pds @ post"
    and "distinct (map pd_filename (pre @ pds @ post))"
    and "\<forall>pd\<in>set pds. \<exists>f. pd_filename pd = Some f \<and> parse_index f = None"
  shows "\<exists>outs. rs' = rs @ outs \<and> length outs = length pds
               \<and> queue w' = pre @ pending pds outs @ post"
  using assms
proof (induction pds arbitrary: i rs w pre)
  case Nil
  then show ?case by simp
next
  case (Cons pd pds)
  from Cons.prems(4) obtain f where f: "pd_filename pd = Some f" and idx: "parse_index f = None"
    by auto
  from Cons.prems(1) obtain st where step: "process_entry e d n i pd (rs, w) = Inr st"
    and rest: "batch_loop e d n (Suc i) pds st = Inr (rs', w')"
    by (auto split: sum.splits)
  from step obtain p where p: "pd_prompt pd = Some p"
    by (auto simp: process_entry_def split: option.splits)
  obtain r w1 where a: "attempt e d i pd p (snd (rs, w)) = (r, w1)"
    by (cases "attempt e d i pd p (snd (rs, w))")
  with step p have st: "st = (rs @ [handle_attempt i pd r], pause i n w1)"
    by (simp add: process_entry_def)
  from Cons.prems(4) have names: "\<forall>pd\<in>set pds. \<exists>f. pd_filename pd = Some f \<and> parse_index f = None"
    by simp
  show ?case
  proof (cases r)
    case (Inl x)
    with a have "queue w1 = queue w" using attempt_failure_queue by simp
    with Cons.prems(2) have q: "queue (pause i n w1) = (pre @ [pd]) @ pds @ post"
      by (simp add: pause_queue)
    from Cons.prems(3) have d: "distinct (map pd_filename ((pre @ [pd]) @ pds @ post))"
      by simp
    from Cons.IH [OF rest [unfolded st] q d names]
    obtain outs where "rs' = (rs @ [handle_attempt i pd r]) @ outs" and "length outs = length pds"
      and "queue w' = (pre @ [pd]) @ pending pds outs @ post" by blast
    with Inl show ?thesis
      by (intro exI [of _ "handle_attempt i pd r # outs"]) (simp add: handle_attempt_def)
  next
    case (Inr out)
    with a have a': "attempt e d i pd p w = (Inr out, w1)" by simp
    from attempt_success_exact [OF a'] obtain parts bytes where
      written: "w1 = remove_from_queue (queue_filename_of i pd)
              (w\<lparr>calls := calls w @ [batch_request e pd parts p],
                 files := (files w)(path_join e d (filename_of i pd) \<mapsto> Bytes bytes)\<rparr>)"
      by blast
    define w2 where "w2 = w\<lparr>calls := calls w @ [batch_request e pd parts p],
                 files := (files w)(path_join e d (filename_of i pd) \<mapsto> Bytes bytes)\<rparr>"
    have w2: "queue w2 = queue w" by (simp add: w2_def)
    have w1: "w1 = remove_from_queue (queue_filename_of i pd) w2"
      using written by (simp add: w2_def)
    from attempt_success_outcome [OF a'] obtain sf sp sr sa sk where
      succ: "out = Success sf sp sr sa sk" by blast
    from Cons.prems(3) have "\<forall>x\<in>set pre. pd_filename x \<noteq> Some f"
      using f by (force simp: image_iff)
    from remove_first_unique [OF this f, of "pds @ post"]
    have "queue_store_remove f (pre @ pd # pds @ post) = Some (pre @ pds @ post)"
      by (simp add: queue_store_remove_by_name [OF idx])
    with w1 w2 Cons.prems(2) f have "queue w1 = pre @ pds @ post"
      by (simp add: remove_from_queue_def queue_filename_of_def)
    then have q: "queue (pause i n w1) = pre @ pds @ post"
      by (simp add: pause_queue)
    from Cons.prems(3) have d: "distinct (map pd_filename (pre @ pds @ post))"
      by simp
    from Cons.IH [OF rest [unfolded st] q d names]
    obtain outs where "rs' = (rs @ [handle_attempt i pd r]) @ outs" and "length outs = length pds"
      and "queue w' = pre @ pending pds outs @ post" by blast
    with Inr succ show ?thesis
      by (intro exI [of _ "handle_attempt i pd r # outs"]) (simp add: handle_attempt_def)
  qed
qed

text \<open>
  Claim C2, as amended. An entry whose attempt succeeds: the answer to its POST had
  status 200, the first inline part of that answer, decoded, is what the file under the
  entry's effective filename in the output directory holds, the outcome appended is the
  success outcome, and the queue's \<open>remove\<close> has been run on the filename as the queue
  stores it. When the run started on the live queue, the filenames stored in the queue
  are pairwise distinct and every processed entry has a stored filename that does not
  parse as an index, then after any processed prefix of a run the queue holds exactly
  the processed entries that did not succeed, followed by the entries not yet processed
  (\<open>batch_loop_append\<close>: the state after a prefix is the state the run passes through).
\<close>

theorem succeeded_entries_leave_the_queue:
  "(pd_prompt pd = Some p \<and> attempt e d i pd p w = (Inr out, w')
    \<longrightarrow> (\<exists>parts resp ps image_data bytes.
            encode_reference_images e w (reference_images_of pd) = Inr parts
          \<and> http_post e (length (calls w)) (batch_request e pd parts p) = Inr resp
          \<and> status_code resp = 200
          \<and> resp_parts resp = Inr ps
          \<and> first_inline ps = Some image_data
          \<and> b64decode e image_data = Inr bytes
          \<and> files w' (path_join e d (filename_of i pd)) = Some (Bytes bytes)
          \<and> w' = remove_from_queue (queue_filename_of i pd)
                   (w\<lparr>calls := calls w @ [batch_request e pd parts p],
                      files := (files w)(path_join e d (filename_of i pd) \<mapsto> Bytes bytes)\<rparr>))
        \<and> out = Success (filename_of i pd) (path_join e d (filename_of i pd)) (batch_gemini_size pd)
                   (aspect_ratio_of pd) (length (reference_images_of pd))
        \<and> process_entry e d n i pd (rs, w) = Inr (rs @ [out], pause i n w'))
   \<and> (queue w = processed @ todo
       \<and> distinct (map pd_filename (processed @ todo))
       \<and> (\<forall>x\<in>set processed. \<exists>f. pd_filename x = Some f \<and> parse_index f = None)
       \<and> batch_loop e d n 1 processed ([], w) = Inr (outs, w1)
    \<longrightarrow> length outs = length processed \<and> queue w1 = pending processed outs @ todo)"
proof -
  have one: "pd_prompt pd = Some p \<and> attempt e d i pd p w = (Inr out, w')
    \<longrightarrow> (\<exists>parts resp ps image_data bytes.
            encode_reference_images e w (reference_images_of pd) = Inr parts
          \<and> http_post e (length (calls w)) (batch_request e pd parts p) = Inr resp
          \<and> status_code resp = 200
          \<and> resp_parts resp = Inr ps
          \<and> first_inline ps = Some image_data
          \<and> b64decode e image_data = Inr bytes
          \<and> files w' (path_join e d (filename_of i pd)) = Some (Bytes bytes)
          \<and> w' = remove_from_queue (queue_filename_of i pd)
                   (w\<lparr>calls := calls w @ [batch_request e pd parts p],
                      files := (files w)(path_join e d (filename_of i pd) \<mapsto> Bytes bytes)\<rparr>))
        \<and> out = Success (filename_of i pd) (path_join e d (filename_of i pd)) (batch_gemini_size pd)
                   (aspect_ratio_of pd) (length (reference_images_of pd))
        \<and> process_entry e d n i pd (rs, w) = Inr (rs @ [out], pause i n w')"
  proof (intro impI, elim conjE)
    assume p: "pd_prompt pd = Some p" and a: "attempt e d i pd p w = (Inr out, w')"
    from attempt_success_exact [OF a] attempt_success_outcome [OF a] process_entry_success [OF p a]
    show "(\<exists>parts resp ps image_data bytes.
            encode_reference_images e w (reference_images_of pd) = Inr parts
          \<and> http_post e (length (calls w)) (batch_request e pd parts p) = Inr resp
          \<and> status_code resp = 200
          \<and> resp_parts resp = Inr ps
          \<and> first_inline ps = Some image_data
          \<and> b64decode e image_data = Inr bytes
          \<and> files w' (path_join e d (filename_of i pd)) = Some (Bytes bytes)
          \<and> w' = remove_from_queue (queue_filename_of i pd)
                   (w\<lparr>calls := calls w @ [batch_request e pd parts p],
                      files := (files w)(path_join e d (filename_of i pd) \<mapsto> Bytes bytes)\<rparr>))
        \<and> out = Success (filename_of i pd) (path_join e d (filename_of i pd)) (batch_gemini_size pd)
                   (aspect_ratio_of pd) (length (reference_images_of pd))
        \<and> process_entry e d n i pd (rs, w) = Inr (rs @ [out], pause i n w')"
      by (intro conjI)
  qed
  have two: "queue w = processed @ todo
       \<and> distinct (map pd_filename (processed @ todo))
       \<and> (\<forall>x\<in>set processed. \<exists>f. pd_filename x = Some f \<and> parse_index f = None)
       \<and> batch_loop e d n 1 processed ([], w) = Inr (outs, w1)
    \<longrightarrow> length outs = length processed \<and> queue w1 = pending processed outs @ todo"
  proof (intro impI, elim conjE)
    assume q: "queue w = processed @ todo"
      and d: "distinct (map pd_filename (processed @ todo))"
      and names: "\<forall>x\<in>set processed. \<exists>f. pd_filename x = Some f \<and> parse_index f = None"
      and run: "batch_loop e d n 1 processed ([], w) = Inr (outs, w1)"
    from loop_queue_invariant [OF run, of "[]" todo] q d names
    show "length outs = length processed \<and> queue w1 = pending processed outs @ todo"
      by simp
  qed
  from one two show ?thesis by (rule conjI)
qed

theorem succeeded_entries_leave_the_queue_witness:
  "batch_loop payload_env ''/out'' 2 1 [cat_entry, dog_entry]
       ([], demo_world [cat_entry, dog_entry]) =
     Inr ([Failure ''cat.png'' ''Reference image not found: /missing.png'',
           Success ''dog.png'' ''/out/dog.png'' ''2K'' ''1:1'' 0],
          (demo_world [cat_entry])\<lparr>files := [''/out/dog.png'' \<mapsto> Bytes ''decoded aGVsbG8=''],
             calls := [batch_request payload_env dog_entry [] ''a dog''], slept := 1\<rparr>)
   \<and> pending [cat_entry, dog_entry]
         [Failure ''cat.png'' ''Reference image not found: /missing.png'',
          Success ''dog.png'' ''/out/dog.png'' ''2K'' ''1:1'' 0] = [cat_entry]
   \<and> queue ((demo_world [cat_entry])\<lparr>files := [''/out/dog.png'' \<mapsto> Bytes ''decoded aGVsbG8=''],
             calls := [batch_request payload_env dog_entry [] ''a dog''], slept := 1\<rparr>) =
       pending [cat_entry, dog_entry]
         [Failure ''cat.png'' ''Reference image not found: /missing.png'',
          Success ''dog.png'' ''/out/dog.png'' ''2K'' ''1:1'' 0] @ []
   \<and> first_inline [RespText ''here it is'', RespInline ''aGVsbG8=''] = Some ''aGVsbG8=''
   \<and> b64decode payload_env ''aGVsbG8='' = Inr ''decoded aGVsbG8=''
   \<and> process_entry payload_env ''/out'' 2 2 dog_entry ([], demo_world [cat_entry, dog_entry]) =
       Inr ([Success ''dog.png'' ''/out/dog.png'' ''2K'' ''1:1'' 0],
            pause 2 2 ((demo_world [cat_entry])\<lparr>files := [''/out/dog.png'' \<mapsto> Bytes ''decoded aGVsbG8=''],
               calls := [batch_request payload_env dog_entry [] ''a dog'']\<rparr>))"
proof -
  have run: "batch_loop payload_env ''/out'' 2 1 [cat_entry, dog_entry]
       ([], demo_world [cat_entry, dog_entry]) =
     Inr ([Failure ''cat.png'' ''Reference image not found: /missing.png'',
           Success ''dog.png'' ''/out/dog.png'' ''2K'' ''1:1'' 0],
          (demo_world [cat_entry])\<lparr>files := [''/out/dog.png'' \<mapsto> Bytes ''decoded aGVsbG8=''],
             calls := [batch_request payload_env dog_entry [] ''a dog''], slept := 1\<rparr>)"
    by (simp add: run_defs payload_env_def decoded_def cat_entry_def dog_entry_def)
  have q: "queue (demo_world [cat_entry, dog_entry]) = [cat_entry, dog_entry] @ []"
    by (simp add: demo_world_def)
  have d: "distinct (map pd_filename ([cat_entry, dog_entry] @ []))"
    by (simp add: cat_entry_def dog_entry_def entry_def)
  have names: "\<forall>x\<in>set [cat_entry, dog_entry]. \<exists>f. pd_filename x = Some f \<and> parse_index f = None"
    by (simp add: cat_entry_def dog_entry_def entry_def parse_index_def is_digit_def)
  have pend: "pending [cat_entry, dog_entry]
         [Failure ''cat.png'' ''Reference image not found: /missing.png'',
          Success ''dog.png'' ''/out/dog.png'' ''2K'' ''1:1'' 0] = [cat_entry]"
    by simp
  have inl: "first_inline [RespText ''here it is'', RespInline ''aGVsbG8=''] = Some ''aGVsbG8=''"
    by simp
  have dec: "b64decode payload_env ''aGVsbG8='' = Inr ''decoded aGVsbG8=''"
    by (simp add: payload_env_def decoded_def)
  have p: "pd_prompt dog_entry = Some ''a dog''"
    by (simp add: dog_entry_def entry_def)
  have a: "attempt payload_env ''/out'' 2 dog_entry ''a dog'' (demo_world [cat_entry, dog_entry]) =
     (Inr (Success ''dog.png'' ''/out/dog.png'' ''2K'' ''1:1'' 0),
      (demo_world [cat_entry])\<lparr>files := [''/out/dog.png'' \<mapsto> Bytes ''decoded aGVsbG8=''],
         calls := [batch_request payload_env dog_entry [] ''a dog'']\<rparr>)"
    by (simp add: run_defs payload_env_def decoded_def cat_entry_def dog_entry_def)
  note inst = succeeded_entries_leave_the_queue [where w = "demo_world [cat_entry, dog_entry]"
      and pd = dog_entry and p = "''a dog''" and i = 2 and rs = "[]"
      and out = "Success ''dog.png'' ''/out/dog.png'' ''2K'' ''1:1'' 0"
      and w' = "(demo_world [cat_entry])\<lparr>files := [''/out/dog.png'' \<mapsto> Bytes ''decoded aGVsbG8=''],
         calls := [batch_request payload_env dog_entry [] ''a dog'']\<rparr>"
      and processed = "[cat_entry, dog_entry]" and todo = "[]" and e = payload_env
      and d = "''/out''" and n = 2
      and outs = "[Failure ''cat.png'' ''Reference image not found: /missing.png'',
                   Success ''dog.png'' ''/out/dog.png'' ''2K'' ''1:1'' 0]"
      and ?w1.0 = "(demo_world [cat_entry])\<lparr>files := [''/out/dog.png'' \<mapsto> Bytes ''decoded aGVsbG8=''],
             calls := [batch_request payload_env dog_entry [] ''a dog''], slept := 1\<rparr>"]
  from inst [THEN conjunct1] p a
  have one: "process_entry payload_env ''/out'' 2 2 dog_entry ([], demo_world [cat_entry, dog_entry]) =
       Inr ([Success ''dog.png'' ''/out/dog.png'' ''2K'' ''1:1'' 0],
            pause 2 2 ((demo_world [cat_entry])\<lparr>files := [''/out/dog.png'' \<mapsto> Bytes ''decoded aGVsbG8=''],
               calls := [batch_request payload_env dog_entry [] ''a dog'']\<rparr>))"
    by simp
  from inst [THEN conjunct2] q d names run
  have two: "queue ((demo_world [cat_entry])\<lparr>files := [''/out/dog.png'' \<mapsto> Bytes ''decoded aGVsbG8=''],
             calls := [batch_request payload_env dog_entry [] ''a dog''], slept := 1\<rparr>) =
       pending [cat_entry, dog_entry]
         [Failure ''cat.png'' ''Reference image not found: /missing.png'',
          Success ''dog.png'' ''/out/dog.png'' ''2K'' ''1:1'' 0] @ []"
    by blast
  from run pend two inl dec one show ?thesis by (intro conjI)
qed

text \<open>
  The claim as stated fails when two queued entries share a filename: the first fails,
  the second succeeds, and removing by filename takes the first out of the queue and
  leaves the one that succeeded.
\<close>

theorem duplicate_filename_keeps_the_wrong_entry:
  "pd_filename dup_failing = pd_filename dup_passing
   \<and> batch_loop (demo_env 200) ''/out'' 2 1 [dup_failing, dup_passing]
       ([], demo_world [dup_failing, dup_passing]) =
     Inr ([Failure ''pic.png'' ''Reference image not found: /missing.png'',
           Success ''pic.png'' ''/out/pic.png'' ''2K'' ''1:1'' 0],
          (demo_world [dup_passing])\<lparr>files := [''/out/pic.png'' \<mapsto> Bytes ''hello''],
             calls := [batch_request (demo_env 200) dup_passing [] ''a dog''], slept := 1\<rparr>)
   \<and> queue ((demo_world [dup_passing])\<lparr>files := [''/out/pic.png'' \<mapsto> Bytes ''hello''],
             calls := [batch_request (demo_env 200) dup_passing [] ''a dog''], slept := 1\<rparr>) =
       [dup_passing]
   \<and> pending [dup_failing, dup_passing]
         [Failure ''pic.png'' ''Reference image not found: /missing.png'',
          Success ''pic.png'' ''/out/pic.png'' ''2K'' ''1:1'' 0] = [dup_failing]
   \<and> [dup_passing] \<noteq> [dup_failing]"
  by (simp add: run_defs dup_failing_def dup_passing_def)

end
